theory Spec2Isabelle
  imports Complex_Main
begin

section \<open>Bundle adjustment test driver: data model\<close>

text \<open>
  The development embeds the bundle adjustment driver of the Vision Workbench
  (the second document of \<^verbatim>\<open>src/vw/gui/TileGenerator.h\<close>): its option
  handling, the parameter model \<^verbatim>\<open>BundleAdjustmentModel\<close>, the iteration loop
  \<^verbatim>\<open>run_bundle_adjustment\<close> and the two pass cycle \<^verbatim>\<open>adjust_bundles\<close>.

  Conventions. A \<^verbatim>\<open>double\<close> is a \<^typ>\<open>real\<close>: the properties below are about
  control flow and about which value is stored where, not about rounding. A
  \<^verbatim>\<open>Vector<double,n>\<close> is a list of reals. A \<^verbatim>\<open>vw_throw\<close> and an \<^verbatim>\<open>exit\<close> are
  values of the type \<open>error\<close>, returned on the left of a sum.
\<close>

type_synonym path = string
type_synonym vec = "real list"

datatype error =
    IOErr string
  | ArgumentErr string
  | LogicErr string
  | Exit int

datatype BundleAdjustmentT =
    REF
  | SPARSE
  | ROBUST_REF
  | ROBUST_SPARSE
  | SPARSE_HUBER
  | SPARSE_CAUCHY

record ProgramOptions =
  bundle_adjustment_type :: BundleAdjustmentT
  lambda :: real
  control :: int
  huber_param :: real
  cauchy_param :: real
  camera_position_sigma :: real
  camera_pose_sigma :: real
  gcp_sigma :: real
  outlier_sd_cutoff :: real
  use_user_lambda :: bool
  use_ba_type_dirs :: bool
  save_iteration_data :: bool
  remove_outliers :: bool
  min_matches :: int
  report_level :: int
  max_iterations :: int
  camera_files :: "path list"
  cnet_file :: path
  data_dir :: path
  results_dir :: path
  config_file :: string

text \<open>The file name constants of the driver.\<close>

definition ConfigFileDefault :: path where
  "ConfigFileDefault = ''ba_test.cfg''"

definition CameraParamsReportFile :: path where
  "CameraParamsReportFile = ''iterCameraParam.txt''"

definition PointsReportFile :: path where
  "PointsReportFile = ''iterPointsParam.txt''"

definition CnetEditor :: string where
  "CnetEditor = ''cnet_editor''"

definition MeanErrorsFile :: path where
  "MeanErrorsFile = ''image_mean.err''"

definition ProcessedCnetFile :: path where
  "ProcessedCnetFile = ''processed.cnet''"

subsection \<open>Strategy names\<close>

text \<open>
  \<^verbatim>\<open>::tolower\<close> in the C locale: the upper case ASCII letters move by 32,
  every other byte is left alone.
\<close>

definition tolower :: "char \<Rightarrow> char" where
  "tolower c =
     (if (65::nat) \<le> of_char c \<and> of_char c \<le> (90::nat)
      then char_of (of_char c + (32::nat)) else c)"

text \<open>
  \<^verbatim>\<open>string_to_ba_type\<close>: \<^verbatim>\<open>t\<close> starts as \<^verbatim>\<open>REF\<close>, the string is lowered in
  place, and the chain of comparisons overwrites \<^verbatim>\<open>t\<close> for five names.
\<close>

definition string_to_ba_type :: "string \<Rightarrow> BundleAdjustmentT" where
  "string_to_ba_type s0 =
     (let s = map tolower s0 in
      if s = ''sparse'' then SPARSE
      else if s = ''sparse_huber'' then SPARSE_HUBER
      else if s = ''sparse_cauchy'' then SPARSE_CAUCHY
      else if s = ''robust_ref'' then ROBUST_REF
      else if s = ''robust_sparse'' then ROBUST_SPARSE
      else REF)"

fun ba_type_to_string :: "BundleAdjustmentT \<Rightarrow> string" where
  "ba_type_to_string REF = ''ref''"
| "ba_type_to_string SPARSE = ''sparse''"
| "ba_type_to_string SPARSE_HUBER = ''sparse_huber''"
| "ba_type_to_string SPARSE_CAUCHY = ''sparse_cauchy''"
| "ba_type_to_string ROBUST_REF = ''robust_ref''"
| "ba_type_to_string ROBUST_SPARSE = ''robust_sparse''"

subsection \<open>The file system\<close>

text \<open>
  Modelled from the spec: the classes \<^verbatim>\<open>ControlNetwork\<close>, \<^verbatim>\<open>ControlPoint\<close> and
  \<^verbatim>\<open>ControlMeasure\<close> are declared outside this file. A control network is an
  ordered list of points, each with its observations, its position and a
  classification, free or ground control point; an observation is a camera
  index (\<^verbatim>\<open>image_id()\<close>) and a measured pixel.
\<close>

datatype ControlPointType = Free | GroundControlPoint

record ControlMeasure =
  image_id :: nat
  pixel :: "real \<times> real"

record ControlPoint =
  measures :: "ControlMeasure list"
  position :: vec
  cp_type :: ControlPointType

type_synonym ControlNetwork = "ControlPoint list"

text \<open>
  What a path holds: a directory, or a regular file with its contents in
  order. The two stream formats of the driver are rows of numbers, each led by
  the index of its entity; a control network file holds a network (its parsing
  belongs to \<^verbatim>\<open>ControlNetwork\<close>); anything else is data.
\<close>

type_synonym row = "nat \<times> vec"

datatype item = Row row | Net ControlNetwork | Data

datatype entry =
    Directory
  | Regular "item list"

type_synonym filesystem = "path \<Rightarrow> entry option"

definition is_regular_file :: "filesystem \<Rightarrow> path \<Rightarrow> bool" where
  \<comment> \<open>\<^verbatim>\<open>!(!fs::exists(p) || fs::is_directory(p))\<close>\<close>
  "is_regular_file fs p = (case fs p of None \<Rightarrow> False | Some Directory \<Rightarrow> False | Some _ \<Rightarrow> True)"

definition contents :: "filesystem \<Rightarrow> path \<Rightarrow> item list" where
  "contents fs p = (case fs p of Some (Regular xs) \<Rightarrow> xs | _ \<Rightarrow> [])"

definition path_append :: "path \<Rightarrow> path \<Rightarrow> path" where
  \<comment> \<open>\<^verbatim>\<open>a / b\<close> of \<^verbatim>\<open>fs::path\<close>\<close>
  "path_append a b = (if a = [] then b else if b = [] then a else a @ ''/'' @ b)"

definition leaf :: "path \<Rightarrow> string" where
  "leaf p = rev (takeWhile (\<lambda>c. c \<noteq> CHR ''/'') (rev p))"

definition parent_path :: "path \<Rightarrow> path" where
  \<comment> \<open>what stands before the last separator; empty for a bare file name\<close>
  "parent_path p = rev (drop 1 (dropWhile (\<lambda>c. c \<noteq> CHR ''/'') (rev p)))"

definition dir_exists :: "filesystem \<Rightarrow> path \<Rightarrow> bool" where
  \<comment> \<open>the working directory, written as the empty path or as a dot, is always there\<close>
  "dir_exists fs d = (d = [] \<or> d = ''.'' \<or> fs d = Some Directory)"

definition extension :: "path \<Rightarrow> string" where
  \<comment> \<open>\<^verbatim>\<open>fs::extension\<close>: the last dot of the leaf and what follows it\<close>
  "extension p =
     (let l = leaf p in
      if CHR ''.'' \<in> set l then CHR ''.'' # rev (takeWhile (\<lambda>c. c \<noteq> CHR ''.'') (rev l))
      else [])"

subsection \<open>Option parsing\<close>

text \<open>
  The variables map after both \<^verbatim>\<open>po::store\<close> calls (command line first, then
  the configuration file): for an option with a value, \<open>None\<close> says that the
  user gave none, so that \<^verbatim>\<open>count\<close> is 0 and, where the option has a default,
  \<^verbatim>\<open>defaulted()\<close> is true; a switch is its boolean.
\<close>

record variables_map =
  vm_help :: bool
  vm_report_level :: "int option"
  vm_config_file :: "string option"
  vm_print_config :: bool
  vm_bundle_adjustment_type :: "string option"
  vm_cnet :: "path option"
  vm_lambda :: "real option"
  vm_control :: "int option"
  vm_huber_param :: "real option"
  vm_cauchy_param :: "real option"
  vm_camera_position_sigma :: "real option"
  vm_camera_pose_sigma :: "real option"
  vm_gcp_sigma :: "real option"
  vm_save_iteration_data :: bool
  vm_max_iterations :: "int option"
  vm_min_matches :: "int option"
  vm_data_dir :: "string option"
  vm_results_dir :: "path option"
  vm_use_ba_type_dirs :: bool
  vm_remove_outliers :: bool
  vm_outlier_sd_cutoff :: "real option"
  vm_input_files :: "path list"

definition with_default :: "'a \<Rightarrow> 'a option \<Rightarrow> 'a" where
  "with_default d v = (case v of None \<Rightarrow> d | Some x \<Rightarrow> x)"

text \<open>
  \<^verbatim>\<open>po::notify\<close>: every option bound to a field stores its value or its
  default there. \<^verbatim>\<open>lambda\<close>, \<^verbatim>\<open>huber-param\<close>, \<^verbatim>\<open>cauchy-param\<close>, \<^verbatim>\<open>cnet\<close> and
  \<^verbatim>\<open>results-dir\<close> have no default: their fields keep what the default
  constructed \<^verbatim>\<open>opts\<close> held (the argument \<open>opts\<close>).
\<close>

definition notify :: "ProgramOptions \<Rightarrow> variables_map \<Rightarrow> ProgramOptions" where
  "notify opts vm = opts
     \<lparr> report_level := with_default 35 (vm_report_level vm),
       config_file := with_default ConfigFileDefault (vm_config_file vm),
       cnet_file := with_default (cnet_file opts) (vm_cnet vm),
       lambda := with_default (lambda opts) (vm_lambda vm),
       control := with_default 0 (vm_control vm),
       huber_param := with_default (huber_param opts) (vm_huber_param vm),
       cauchy_param := with_default (cauchy_param opts) (vm_cauchy_param vm),
       camera_position_sigma := with_default 1 (vm_camera_position_sigma vm),
       camera_pose_sigma := with_default (1 / 10 ^ 16) (vm_camera_pose_sigma vm),
       gcp_sigma := with_default (1 / 10 ^ 16) (vm_gcp_sigma vm),
       save_iteration_data := vm_save_iteration_data vm,
       max_iterations := with_default 30 (vm_max_iterations vm),
       min_matches := with_default 30 (vm_min_matches vm),
       results_dir := with_default (results_dir opts) (vm_results_dir vm),
       use_ba_type_dirs := vm_use_ba_type_dirs vm,
       remove_outliers := vm_remove_outliers vm,
       outlier_sd_cutoff := with_default 2 (vm_outlier_sd_cutoff vm),
       camera_files := vm_input_files vm \<rparr>"

text \<open>
  \<^verbatim>\<open>parse_options\<close>, from the parsed variables map on. Every \<^verbatim>\<open>exit(n)\<close> is
  \<open>Inl (Exit n)\<close>. The logging rules set at the end belong to the process wide
  log and are left out.
\<close>

definition parse_options :: "filesystem \<Rightarrow> ProgramOptions \<Rightarrow> variables_map \<Rightarrow> error + ProgramOptions" where
  "parse_options fs opts0 vm =
     (if vm_help vm then Inl (Exit 1)
      else if \<not> is_regular_file fs (with_default ConfigFileDefault (vm_config_file vm))
      then Inl (Exit 1)
      else
        let opts1 = notify opts0 vm;
            opts2 = opts1 \<lparr> use_user_lambda := (vm_lambda vm \<noteq> None),
                            data_dir := with_default ''.'' (vm_data_dir vm) \<rparr>;
            opts3 = opts2 \<lparr> bundle_adjustment_type :=
                              string_to_ba_type (with_default ''ref'' (vm_bundle_adjustment_type vm)) \<rparr>
        in
        if vm_print_config vm then Inl (Exit 0)
        else if vm_cnet vm = None then Inl (Exit 1)
        else if length (camera_files opts3) < 1 then Inl (Exit 1)
        else if control opts3 \<noteq> 0 \<and> control opts3 \<noteq> 1 then Inl (Exit 1)
        else
          let opts4 = (if vm_results_dir vm = None
                       then opts3 \<lparr> results_dir := data_dir opts3 \<rparr> else opts3);
              opts5 = (if vm_outlier_sd_cutoff vm \<noteq> None
                       then opts4 \<lparr> remove_outliers := True \<rparr> else opts4)
          in Inr opts5)"

section \<open>The parameter model\<close>

text \<open>
  A base camera is a pinhole model read from a file; its geometry is outside
  this development, so a camera is known by the file it was read from.
\<close>

datatype camera = PinholeModel path

type_synonym matrix = "real list list"

record BundleAdjustmentModel =
  m_cameras :: "camera list"
  m_network :: ControlNetwork
  a :: "vec list"
  b :: "vec list"
  a_target :: "vec list"
  b_target :: "vec list"
  m_num_pixel_observations :: int
  m_camera_position_sigma :: real
  m_camera_pose_sigma :: real
  m_gcp_sigma :: real

definition camera_vector_t :: vec where
  \<comment> \<open>a default constructed \<^verbatim>\<open>Vector<double,6>\<close>: all zeros\<close>
  "camera_vector_t = replicate 6 0"

text \<open>
  The sanity check of the constructor: the two nested loops over the points of
  the network and over the measures of a point, with \<^verbatim>\<open>VW_ASSERT\<close> throwing
  \<^verbatim>\<open>ArgumentErr\<close> at the first measure whose \<^verbatim>\<open>image_id()\<close> is not below the
  camera count.
\<close>

fun check_measures :: "int \<Rightarrow> ControlMeasure list \<Rightarrow> error + unit" where
  "check_measures camera_count [] = Inr ()"
| "check_measures camera_count (j # js) =
     (if int (image_id j) < camera_count then check_measures camera_count js
      else Inl (ArgumentErr ''Invalid control point: has image_id() larger than camera vector''))"

fun check_points :: "int \<Rightarrow> ControlPoint list \<Rightarrow> error + unit" where
  "check_points camera_count [] = Inr ()"
| "check_points camera_count (i # net) =
     (case check_measures camera_count (measures i) of
        Inl e \<Rightarrow> Inl e
      | Inr _ \<Rightarrow> check_points camera_count net)"

definition BundleAdjustmentModel_new ::
  "camera list \<Rightarrow> ControlNetwork \<Rightarrow> real \<Rightarrow> real \<Rightarrow> real \<Rightarrow> error + BundleAdjustmentModel" where
  "BundleAdjustmentModel_new cameras network camera_position_sigma' camera_pose_sigma' gcp_sigma' =
     (let camera_count = int (length cameras) in
      case check_points camera_count network of
        Inl e \<Rightarrow> Inl e
      | Inr _ \<Rightarrow>
          Inr \<lparr> m_cameras = cameras,
                m_network = network,
                a = map (\<lambda>_. camera_vector_t) cameras,
                b = map position network,
                a_target = map (\<lambda>_. camera_vector_t) cameras,
                b_target = map position network,
                m_num_pixel_observations = sum_list (map (\<lambda>p. int (length (measures p))) network),
                m_camera_position_sigma = camera_position_sigma',
                m_camera_pose_sigma = camera_pose_sigma',
                m_gcp_sigma = gcp_sigma' \<rparr>)"

definition num_cameras :: "BundleAdjustmentModel \<Rightarrow> nat" where
  "num_cameras m = length (a m)"

definition num_points :: "BundleAdjustmentModel \<Rightarrow> nat" where
  "num_points m = length (b m)"

definition cameras :: "BundleAdjustmentModel \<Rightarrow> camera list" where
  "cameras m = m_cameras m"

text \<open>
  \<^verbatim>\<open>set_A_parameters\<close> and \<^verbatim>\<open>set_B_parameters\<close>: an assignment to one element
  (the source does not check the index; out of range the model leaves the
  vector as it is).
\<close>

definition set_A_parameters :: "nat \<Rightarrow> vec \<Rightarrow> BundleAdjustmentModel \<Rightarrow> BundleAdjustmentModel" where
  "set_A_parameters j a_j m = m \<lparr> a := (a m)[j := a_j] \<rparr>"

definition set_B_parameters :: "nat \<Rightarrow> vec \<Rightarrow> BundleAdjustmentModel \<Rightarrow> BundleAdjustmentModel" where
  "set_B_parameters i b_i m = m \<lparr> b := (b m)[i := b_i] \<rparr>"

subsection \<open>Inverse covariances\<close>

definition zero_matrix :: "nat \<Rightarrow> nat \<Rightarrow> matrix" where
  \<comment> \<open>a default constructed \<^verbatim>\<open>Matrix<double,r,c>\<close>\<close>
  "zero_matrix r c = replicate r (replicate c 0)"

definition set_elem :: "nat \<Rightarrow> nat \<Rightarrow> real \<Rightarrow> matrix \<Rightarrow> matrix" where
  \<comment> \<open>\<^verbatim>\<open>result(i,j) = v\<close>\<close>
  "set_elem i j v M = M[i := (M ! i)[j := v]]"

definition A_inverse_covariance :: "BundleAdjustmentModel \<Rightarrow> nat \<Rightarrow> matrix" where
  "A_inverse_covariance m j =
     (let result = zero_matrix 6 6;
          result = set_elem 0 0 (1 / (m_camera_position_sigma m) ^ 2) result;
          result = set_elem 1 1 (1 / (m_camera_position_sigma m) ^ 2) result;
          result = set_elem 2 2 (1 / (m_camera_position_sigma m) ^ 2) result;
          result = set_elem 3 3 (1 / (m_camera_pose_sigma m) ^ 2) result;
          result = set_elem 4 4 (1 / (m_camera_pose_sigma m) ^ 2) result;
          result = set_elem 5 5 (1 / (m_camera_pose_sigma m) ^ 2) result
      in result)"

definition B_inverse_covariance :: "BundleAdjustmentModel \<Rightarrow> nat \<Rightarrow> matrix" where
  "B_inverse_covariance m i =
     (let result = zero_matrix 3 3;
          result = set_elem 0 0 (1 / (m_gcp_sigma m) ^ 2) result;
          result = set_elem 1 1 (1 / (m_gcp_sigma m) ^ 2) result;
          result = set_elem 2 2 (1 / (m_gcp_sigma m) ^ 2) result
      in result)"

subsection \<open>Iteration snapshots\<close>

text \<open>
  An output stream on a path opens when the directory of the path exists and
  the path itself is not a directory; it creates a missing file. The driver
  never tests its streams: on a stream that did not open every write is lost
  without an error. \<^verbatim>\<open>std::ios::app\<close> keeps what the file holds and writes
  after it, \<^verbatim>\<open>std::ios_base::out\<close> empties the file.
\<close>

definition stream_opens :: "filesystem \<Rightarrow> path \<Rightarrow> bool" where
  "stream_opens fs p = (dir_exists fs (parent_path p) \<and> fs p \<noteq> Some Directory)"

definition append_rows :: "path \<Rightarrow> row list \<Rightarrow> filesystem \<Rightarrow> filesystem" where
  "append_rows p rs fs =
     (if stream_opens fs p then fs(p \<mapsto> Regular (contents fs p @ map Row rs)) else fs)"

definition truncate_file :: "path \<Rightarrow> filesystem \<Rightarrow> filesystem" where
  "truncate_file p fs = (if stream_opens fs p then fs(p \<mapsto> Regular []) else fs)"

definition clear_report_files :: "path \<Rightarrow> path \<Rightarrow> path \<Rightarrow> filesystem \<Rightarrow> filesystem" where
  "clear_report_files cam_file point_file dir fs =
     truncate_file (path_append dir point_file) (truncate_file (path_append dir cam_file) fs)"

text \<open>
  \<^verbatim>\<open>write_adjusted_cameras_append\<close>: for camera \<open>j\<close> the rows of a \<^verbatim>\<open>CAHVORModel\<close>
  whose \<^verbatim>\<open>C\<close> is the position correction \<^verbatim>\<open>subvector(a[j],0,3)\<close>, whose \<^verbatim>\<open>A\<close>,
  \<^verbatim>\<open>H\<close>, \<^verbatim>\<open>V\<close> are the unit vectors and whose \<^verbatim>\<open>O\<close>, \<^verbatim>\<open>R\<close> are left as default
  constructed (zero) vectors. The pose correction is computed from
  \<^verbatim>\<open>subvector(a[j],3,3)\<close> and not written.
\<close>

definition camera_rows :: "nat \<Rightarrow> vec \<Rightarrow> row list" where
  "camera_rows j a_j =
     [(j, take 3 a_j), (j, [1, 0, 0]), (j, [0, 1, 0]), (j, [0, 0, 1]),
      (j, [0, 0, 0]), (j, [0, 0, 0])]"

definition write_adjusted_cameras_append ::
  "BundleAdjustmentModel \<Rightarrow> path \<Rightarrow> path \<Rightarrow> filesystem \<Rightarrow> filesystem" where
  "write_adjusted_cameras_append m filename dir fs =
     append_rows (path_append dir filename)
       (concat (map (\<lambda>(j, a_j). camera_rows j a_j) (enumerate 0 (a m)))) fs"

definition write_points_append ::
  "BundleAdjustmentModel \<Rightarrow> path \<Rightarrow> path \<Rightarrow> filesystem \<Rightarrow> filesystem" where
  "write_points_append m filename dir fs =
     append_rows (path_append dir filename)
       (map (\<lambda>(i, b_i). (i, take 3 b_i)) (enumerate 0 (b m))) fs"

section \<open>The solver, the reporter and the outlier editor\<close>

text \<open>
  Modelled from the spec: the adjuster classes (\<^verbatim>\<open>AdjustRef\<close>, \<^verbatim>\<open>AdjustSparse\<close>,
  \<^verbatim>\<open>AdjustRobustRef\<close>, \<^verbatim>\<open>AdjustRobustSparse\<close>), the cost functions,
  \<^verbatim>\<open>BundleAdjustReport\<close> and the program \<^verbatim>\<open>cnet_editor\<close> are not part of this
  file. The solver strategies share one contract: an iteration count, a single
  step update that returns a delta, and setters for lambda and control. The
  driver is a template over them; what they compute is left open, as the
  fields of a record \<open>externals\<close> that every function of the driver takes as
  its first argument: the state a new adjuster starts in, the solver step, what
  the reporter's \<^verbatim>\<open>end_tie_in\<close> does to the files, and what \<^verbatim>\<open>system\<close> returns
  and does to the files for a command.

  An adjuster keeps a reference to the model it was built on and changes it in
  place; the record \<open>adjuster\<close> carries that model, and the driver reads it back
  after a pass. The members of the model are private: a solver step reaches
  them through \<^verbatim>\<open>set_A_parameters\<close> and \<^verbatim>\<open>set_B_parameters\<close> only, so a step is
  given by the assignments it makes, together with the value it returns, the
  two tolerances it stores through its reference arguments, and the iteration
  count and lambda it leaves in the adjuster.
\<close>

datatype AdjusterT = AdjustRef | AdjustSparse | AdjustRobustRef | AdjustRobustSparse

datatype CostT = L2Error | HuberError real | CauchyError real

record adjuster =
  adj_type :: AdjusterT
  adj_model :: BundleAdjustmentModel
  adj_cost :: CostT
  adj_iterations :: int
  adj_lambda :: real
  adj_control :: int

record step =
  step_delta :: real
  step_abs_tol :: real
  step_rel_tol :: real
  step_A :: "(nat \<times> vec) list"
  step_B :: "(nat \<times> vec) list"
  step_iterations :: int
  step_lambda :: real

record reporter =
  rep_name :: string
  rep_level :: int

record command =
  cmd_program :: string
  cmd_c :: real
  cmd_o :: path
  cmd_d :: path
  cmd_cnet :: path
  cmd_errors :: path

record externals =
  init_iterations :: int
  init_lambda :: real
  init_control :: int
  solver :: "adjuster \<Rightarrow> real \<Rightarrow> real \<Rightarrow> step"
  tie_in :: "reporter \<Rightarrow> adjuster \<Rightarrow> filesystem \<Rightarrow> filesystem"
  system :: "command \<Rightarrow> filesystem \<Rightarrow> int \<times> filesystem"

text \<open>What the driver does is recorded as a trace beside the file system.\<close>

datatype event = EvUpdate | EvEndTieIn string | EvSystem command

record world =
  disk :: filesystem
  trace :: "event list"

definition new_adjuster :: "externals \<Rightarrow> AdjusterT \<Rightarrow> BundleAdjustmentModel \<Rightarrow> CostT \<Rightarrow> adjuster" where
  \<comment> \<open>\<^verbatim>\<open>AdjusterT bundle_adjuster(ba_model, cost_func)\<close>\<close>
  "new_adjuster x t m cost_func =
     \<lparr> adj_type = t, adj_model = m, adj_cost = cost_func,
       adj_iterations = init_iterations x, adj_lambda = init_lambda x,
       adj_control = init_control x \<rparr>"

definition set_lambda :: "real \<Rightarrow> adjuster \<Rightarrow> adjuster" where
  "set_lambda l adj = adj \<lparr> adj_lambda := l \<rparr>"

definition set_control :: "int \<Rightarrow> adjuster \<Rightarrow> adjuster" where
  "set_control c adj = adj \<lparr> adj_control := c \<rparr>"

definition update :: "externals \<Rightarrow> adjuster \<Rightarrow> real \<Rightarrow> real \<Rightarrow> real \<times> real \<times> real \<times> adjuster" where
  \<comment> \<open>\<^verbatim>\<open>overall_delta = adjuster.update(abs_tol, rel_tol)\<close>: the returned value, the
      two tolerances after the call, the adjuster after the call\<close>
  "update x adj abs_tol rel_tol =
     (let s = solver x adj abs_tol rel_tol;
          m1 = fold (\<lambda>(j, a_j). set_A_parameters j a_j) (step_A s) (adj_model adj);
          m2 = fold (\<lambda>(i, b_i). set_B_parameters i b_i) (step_B s) m1
      in (step_delta s, step_abs_tol s, step_rel_tol s,
          adj \<lparr> adj_model := m2, adj_iterations := step_iterations s,
                adj_lambda := step_lambda s \<rparr>))"

definition end_tie_in :: "externals \<Rightarrow> reporter \<Rightarrow> adjuster \<Rightarrow> world \<Rightarrow> world" where
  "end_tie_in x rep adj w =
     w \<lparr> disk := tie_in x rep adj (disk w), trace := trace w @ [EvEndTieIn (rep_name rep)] \<rparr>"

subsection \<open>Outlier removal and network loading\<close>

definition editor_command :: "path \<Rightarrow> path \<Rightarrow> path \<Rightarrow> real \<Rightarrow> command" where
  \<comment> \<open>the command line \<^verbatim>\<open>cnet_editor -c sd_cutoff -o cnet_out_file -d data_dir cnet_file
      image_mean.err\<close>\<close>
  "editor_command cnet_file' cnet_out_file data_dir' sd_cutoff =
     \<lparr> cmd_program = CnetEditor, cmd_c = sd_cutoff, cmd_o = cnet_out_file,
       cmd_d = data_dir', cmd_cnet = cnet_file', cmd_errors = MeanErrorsFile \<rparr>"

definition remove_outliers_call ::
  "externals \<Rightarrow> path \<Rightarrow> path \<Rightarrow> path \<Rightarrow> real \<Rightarrow> world \<Rightarrow> (error + unit) \<times> world" where
  "remove_outliers_call x cnet_file' cnet_out_file data_dir' sd_cutoff w =
     (if \<not> is_regular_file (disk w) MeanErrorsFile
      then (Inl (IOErr ''Mean errors file does not exist or is not a regular file''), w)
      else if \<not> is_regular_file (disk w) cnet_file'
      then (Inl (IOErr ''Control network file does not exist or is not a regular file''), w)
      else
        let command = editor_command cnet_file' cnet_out_file data_dir' sd_cutoff;
            (res, fs') = system x command (disk w);
            w' = w \<lparr> disk := fs', trace := trace w @ [EvSystem command] \<rparr>
        in if res = -1 then (Inl (LogicErr ''system failed''), w') else (Inr (), w'))"

text \<open>
  Modelled from the spec: the readers \<^verbatim>\<open>read_isis\<close> and \<^verbatim>\<open>read_binary\<close> belong to
  \<^verbatim>\<open>ControlNetwork\<close>, outside this file. A path that holds a network yields it;
  a missing or unreadable control network file is a fatal input error.
\<close>

definition read_network :: "filesystem \<Rightarrow> path \<Rightarrow> error + ControlNetwork" where
  "read_network fs p =
     (case fs p of
        Some (Regular [Net cnet]) \<Rightarrow> Inr cnet
      | _ \<Rightarrow> Inl (IOErr ''cannot read control network''))"

text \<open>\<^verbatim>\<open>load_control_network\<close> chooses the reader by the extension.\<close>

definition load_control_network :: "filesystem \<Rightarrow> path \<Rightarrow> error + ControlNetwork" where
  "load_control_network fs p =
     (if extension p = ''.net'' then read_network fs p
      else if extension p = ''.cnet'' then read_network fs p
      else Inl (IOErr ''Unknown control network file extension''))"

section \<open>The iteration loop\<close>

text \<open>
  The \<^verbatim>\<open>while (overall_delta)\<close> loop of \<^verbatim>\<open>run_bundle_adjustment\<close>. Nothing in the
  driver bounds the loop when the solver never raises its iteration count, so
  the loop takes fuel: \<open>None\<close> says that the fuel ran out before it left.
\<close>

fun ba_loop ::
  "externals \<Rightarrow> path \<Rightarrow> int \<Rightarrow> bool \<Rightarrow> nat \<Rightarrow> real \<Rightarrow> real \<Rightarrow> real \<Rightarrow> adjuster \<Rightarrow> world
   \<Rightarrow> (adjuster \<times> world) option" where
  "ba_loop x dir max_iter save 0 overall_delta abs_tol rel_tol adj w = None"
| "ba_loop x dir max_iter save (Suc n) overall_delta abs_tol rel_tol adj w =
     (if overall_delta = 0 then Some (adj, w)
      else if adj_iterations adj \<ge> max_iter \<or> abs_tol < 1 / 1000 \<or> rel_tol < 1 / 1000
      then Some (adj, w)
      else
        case update x adj abs_tol rel_tol of (overall_delta', abs_tol', rel_tol', adj') \<Rightarrow>
          let w1 = w \<lparr> trace := trace w @ [EvUpdate] \<rparr>;
              w2 = (if save
                    then w1 \<lparr> disk := write_points_append (adj_model adj') PointsReportFile dir
                                     (write_adjusted_cameras_append (adj_model adj')
                                        CameraParamsReportFile dir (disk w1)) \<rparr>
                    else w1)
          in ba_loop x dir max_iter save n overall_delta' abs_tol' rel_tol' adj' w2)"

definition run_bundle_adjustment ::
  "externals \<Rightarrow> nat \<Rightarrow> adjuster \<Rightarrow> reporter \<Rightarrow> path \<Rightarrow> int \<Rightarrow> bool \<Rightarrow> world
   \<Rightarrow> (adjuster \<times> world) option" where
  "run_bundle_adjustment x fuel adj rep dir max_iter save w =
     (case ba_loop x dir max_iter save fuel 2 (10 ^ 10) (10 ^ 10) adj w of
        None \<Rightarrow> None
      | Some (adj', w') \<Rightarrow> Some (adj', end_tie_in x rep adj' w'))"

section \<open>The two pass cycle\<close>

text \<open>
  \<^verbatim>\<open>adjust_bundles\<close>, cut at the places the properties below speak about: the
  results directory, the adjuster of the first pass with its settings, the
  first pass, the model built on the processed network, the adjusters after the
  settings of the second pass, and the whole function.
\<close>

definition results_dir_of :: "ProgramOptions \<Rightarrow> path" where
  "results_dir_of config =
     (if use_ba_type_dirs config
      then
        let type_dir = ba_type_to_string (bundle_adjustment_type config);
            type_dir = (if remove_outliers config then type_dir @ ''_no_outliers'' else type_dir)
        in path_append (results_dir config) type_dir
      else results_dir config)"

definition first_adjuster ::
  "externals \<Rightarrow> AdjusterT \<Rightarrow> BundleAdjustmentModel \<Rightarrow> CostT \<Rightarrow> ProgramOptions \<Rightarrow> adjuster" where
  "first_adjuster x t ba_model cost_func config =
     (let bundle_adjuster = new_adjuster x t ba_model cost_func;
          bundle_adjuster = (if use_user_lambda config
                             then set_lambda (lambda config) bundle_adjuster
                             else bundle_adjuster);
          bundle_adjuster = set_control (control config) bundle_adjuster
      in bundle_adjuster)"

definition new_model_no_outliers ::
  "ProgramOptions \<Rightarrow> BundleAdjustmentModel \<Rightarrow> ControlNetwork \<Rightarrow> error + BundleAdjustmentModel" where
  \<comment> \<open>\<^verbatim>\<open>BundleAdjustmentModel ba_model_no_outliers(ba_model.cameras(), cnet, ...)\<close>\<close>
  "new_model_no_outliers config ba_model cnet =
     BundleAdjustmentModel_new (cameras ba_model) cnet
       (camera_position_sigma config) (camera_pose_sigma config) (gcp_sigma config)"

definition reload ::
  "externals \<Rightarrow> ProgramOptions \<Rightarrow> path \<Rightarrow> BundleAdjustmentModel \<Rightarrow> world
   \<Rightarrow> (error + BundleAdjustmentModel) \<times> world" where
  "reload x config dir ba_model w =
     (let cnet_file' = path_append (data_dir config) (cnet_file config) in
      case remove_outliers_call x cnet_file' ProcessedCnetFile dir (outlier_sd_cutoff config) w of
        (Inl e, w') \<Rightarrow> (Inl e, w')
      | (Inr _, w') \<Rightarrow>
          (case load_control_network (disk w') (path_append dir ProcessedCnetFile) of
             Inl e \<Rightarrow> (Inl e, w')
           | Inr cnet \<Rightarrow> (new_model_no_outliers config ba_model cnet, w')))"

text \<open>
  The settings of the second pass. The new adjuster receives the lambda of the
  user; \<^verbatim>\<open>set_control\<close> is called on \<^verbatim>\<open>bundle_adjuster\<close>, the adjuster of the
  first pass. The result is that adjuster and the new one.
\<close>

definition second_adjusters ::
  "externals \<Rightarrow> AdjusterT \<Rightarrow> CostT \<Rightarrow> ProgramOptions \<Rightarrow> adjuster \<Rightarrow> BundleAdjustmentModel
   \<Rightarrow> adjuster \<times> adjuster" where
  "second_adjusters x t cost_func config bundle_adjuster ba_model_no_outliers =
     (let bundle_adjuster_no_outliers = new_adjuster x t ba_model_no_outliers cost_func;
          bundle_adjuster_no_outliers =
            (if use_user_lambda config
             then set_lambda (lambda config) bundle_adjuster_no_outliers
             else bundle_adjuster_no_outliers);
          bundle_adjuster = set_control (control config) bundle_adjuster
      in (bundle_adjuster, bundle_adjuster_no_outliers))"

definition first_pass ::
  "externals \<Rightarrow> AdjusterT \<Rightarrow> nat \<Rightarrow> BundleAdjustmentModel \<Rightarrow> CostT \<Rightarrow> ProgramOptions \<Rightarrow> string
   \<Rightarrow> world \<Rightarrow> (adjuster \<times> world) option" where
  "first_pass x t fuel ba_model cost_func config ba_type_str w =
     (let bundle_adjuster = first_adjuster x t ba_model cost_func config;
          dir = results_dir_of config;
          w0 = (if save_iteration_data config
                then w \<lparr> disk := clear_report_files CameraParamsReportFile PointsReportFile dir
                                   (disk w) \<rparr>
                else w);
          rep = \<lparr> rep_name = ba_type_str, rep_level = report_level config \<rparr>
      in run_bundle_adjustment x fuel bundle_adjuster rep dir
           (max_iterations config) (save_iteration_data config) w0)"

definition adjust_bundles ::
  "externals \<Rightarrow> AdjusterT \<Rightarrow> nat \<Rightarrow> BundleAdjustmentModel \<Rightarrow> CostT \<Rightarrow> ProgramOptions \<Rightarrow> string
   \<Rightarrow> world \<Rightarrow> ((error + BundleAdjustmentModel) \<times> world) option" where
  "adjust_bundles x t fuel ba_model cost_func config ba_type_str w =
     (let dir = results_dir_of config in
      case first_pass x t fuel ba_model cost_func config ba_type_str w of
        None \<Rightarrow> None
      | Some (bundle_adjuster1, w1) \<Rightarrow>
          if remove_outliers config then
            (case reload x config dir (adj_model bundle_adjuster1) w1 of
               (Inl e, w2) \<Rightarrow> Some (Inl e, w2)
             | (Inr ba_model_no_outliers, w2) \<Rightarrow>
                 (case second_adjusters x t cost_func config bundle_adjuster1 ba_model_no_outliers of
                    (bundle_adjuster2, bundle_adjuster_no_outliers) \<Rightarrow>
                      let rep2 = \<lparr> rep_name = ba_type_str @ '' No Outliers'',
                                   rep_level = report_level config \<rparr>
                      in
                      case run_bundle_adjustment x fuel bundle_adjuster_no_outliers rep2 dir
                             (max_iterations config) (save_iteration_data config) w2 of
                        None \<Rightarrow> None
                      | Some (bundle_adjuster3, w3) \<Rightarrow> Some (Inr (adj_model bundle_adjuster3), w3)))
          else Some (Inr (adj_model bundle_adjuster1), w1))"

section \<open>Notions used to state the properties\<close>

text \<open>
  The state of the loop between two steps is the last returned delta, the two
  tolerances and the adjuster. \<open>after_updates x k s\<close> is the state reached from
  \<open>s\<close> by \<open>k\<close> solver steps. \<open>stop_now\<close> is the stop rule in the words of the
  specification: delta is zero, or the iteration count has reached the maximum,
  or the absolute tolerance is below \<open>1e-3\<close>, or the relative tolerance is.
\<close>

type_synonym loop_state = "real \<times> real \<times> real \<times> adjuster"

fun after_updates :: "externals \<Rightarrow> nat \<Rightarrow> loop_state \<Rightarrow> loop_state" where
  "after_updates x 0 s = s"
| "after_updates x (Suc k) (overall_delta, abs_tol, rel_tol, adj) =
     after_updates x k (update x adj abs_tol rel_tol)"

definition stop_now :: "int \<Rightarrow> loop_state \<Rightarrow> bool" where
  "stop_now max_iter s =
     (case s of (overall_delta, abs_tol, rel_tol, adj) \<Rightarrow>
        overall_delta = 0 \<or> adj_iterations adj \<ge> max_iter
        \<or> abs_tol < 1 / 1000 \<or> rel_tol < 1 / 1000)"

definition adjuster_of :: "loop_state \<Rightarrow> adjuster" where
  "adjuster_of s = snd (snd (snd s))"

text \<open>
  What the loop writes after a step when iteration data is saved, and two
  readings of the result of \<^verbatim>\<open>adjust_bundles\<close>: whether it returned a model,
  the trace it left, and the model it returned.
\<close>

definition save_iteration :: "path \<Rightarrow> BundleAdjustmentModel \<Rightarrow> filesystem \<Rightarrow> filesystem" where
  "save_iteration dir m fsys =
     write_points_append m PointsReportFile dir
       (write_adjusted_cameras_append m CameraParamsReportFile dir fsys)"

definition returned_model :: "((error + BundleAdjustmentModel) \<times> world) option \<Rightarrow> bool" where
  "returned_model r = (case r of Some (Inr _, _) \<Rightarrow> True | _ \<Rightarrow> False)"

definition events :: "((error + BundleAdjustmentModel) \<times> world) option \<Rightarrow> event list" where
  "events r = (case r of Some (_, w) \<Rightarrow> trace w | None \<Rightarrow> [])"

definition final_model ::
  "((error + BundleAdjustmentModel) \<times> world) option \<Rightarrow> BundleAdjustmentModel option" where
  "final_model r = (case r of Some (Inr m, _) \<Rightarrow> Some m | _ \<Rightarrow> None)"

fun is_tie_in :: "event \<Rightarrow> bool" where
  "is_tie_in (EvEndTieIn _) = True"
| "is_tie_in _ = False"

text \<open>
  The contract of a solver that the driver relies on for its iteration budget:
  every call of \<^verbatim>\<open>update\<close> raises the count that \<^verbatim>\<open>iterations()\<close> returns.
\<close>

definition counts_iterations :: "externals \<Rightarrow> bool" where
  "counts_iterations x =
     (\<forall>adj abs_tol rel_tol. adj_iterations adj < step_iterations (solver x adj abs_tol rel_tol))"

subsection \<open>A small instance\<close>

text \<open>
  Two cameras and two points seen by both; a solver that moves the first point
  and the first camera at every step and never converges; a reporter that
  writes the error file from report level 35 on; an editor that reports
  failure through its exit status and writes nothing, on a disk that holds a
  processed network of an earlier run. The names below are used to run the definitions
  on concrete data.
\<close>

definition example_cameras :: "camera list" where
  "example_cameras = [PinholeModel ''cam0.pinhole'', PinholeModel ''cam1.pinhole'']"

definition example_network :: ControlNetwork where
  "example_network =
     [\<lparr> measures = [\<lparr> image_id = 0, pixel = (10, 20) \<rparr>, \<lparr> image_id = 1, pixel = (11, 21) \<rparr>],
        position = [1, 2, 3], cp_type = Free \<rparr>,
      \<lparr> measures = [\<lparr> image_id = 0, pixel = (30, 40) \<rparr>, \<lparr> image_id = 1, pixel = (31, 41) \<rparr>],
        position = [4, 5, 6], cp_type = GroundControlPoint \<rparr>]"

definition example_model :: BundleAdjustmentModel where
  "example_model =
     \<lparr> m_cameras = example_cameras,
       m_network = example_network,
       a = [[0, 0, 0, 0, 0, 0], [0, 0, 0, 0, 0, 0]],
       b = [[1, 2, 3], [4, 5, 6]],
       a_target = [[0, 0, 0, 0, 0, 0], [0, 0, 0, 0, 0, 0]],
       b_target = [[1, 2, 3], [4, 5, 6]],
       m_num_pixel_observations = 4,
       m_camera_position_sigma = 1,
       m_camera_pose_sigma = 1 / 2,
       m_gcp_sigma = 1 / 4 \<rparr>"

definition example_solver :: "adjuster \<Rightarrow> real \<Rightarrow> real \<Rightarrow> step" where
  "example_solver adj abs_tol rel_tol =
     \<lparr> step_delta = 1, step_abs_tol = 1, step_rel_tol = 1,
       step_A = [(0, [1, 1, 1, 7, 8, 9])], step_B = [(0, [9, 9, 9])],
       step_iterations = adj_iterations adj + 1, step_lambda = adj_lambda adj \<rparr>"

definition example_externals :: externals where
  "example_externals =
     \<lparr> init_iterations = 0, init_lambda = 1 / 1000, init_control = 0,
       solver = example_solver,
       tie_in = (\<lambda>rep adj fsys. if rep_level rep \<ge> 35 then fsys(MeanErrorsFile \<mapsto> Regular [Data]) else fsys),
       system = (\<lambda>cmd fsys. (256, fsys)) \<rparr>"

definition example_disk :: filesystem where
  "example_disk =
     [ConfigFileDefault \<mapsto> Regular [Data],
      ''data'' \<mapsto> Directory,
      ''data/control.cnet'' \<mapsto> Regular [Net example_network],
      ''out'' \<mapsto> Directory,
      ''out/processed.cnet'' \<mapsto> Regular [Net (take 1 example_network)]]"

definition cleared_disk :: filesystem where
  "cleared_disk = clear_report_files CameraParamsReportFile PointsReportFile ''out'' example_disk"

definition example_world :: world where
  "example_world = \<lparr> disk = example_disk, trace = [] \<rparr>"

definition example_config :: ProgramOptions where
  "example_config =
     \<lparr> bundle_adjustment_type = REF, lambda = 0, control = 1, huber_param = 0,
       cauchy_param = 0, camera_position_sigma = 1, camera_pose_sigma = 1 / 2,
       gcp_sigma = 1 / 4, outlier_sd_cutoff = 3, use_user_lambda = False,
       use_ba_type_dirs = False, save_iteration_data = True, remove_outliers = True,
       min_matches = 30, report_level = 35, max_iterations = 2,
       camera_files = [''cam0.pinhole'', ''cam1.pinhole''], cnet_file = ''control.cnet'',
       data_dir = ''data'', results_dir = ''out'', config_file = ''ba_test.cfg'' \<rparr>"

definition blank_options :: ProgramOptions where
  "blank_options =
     \<lparr> bundle_adjustment_type = REF, lambda = 0, control = 0, huber_param = 0,
       cauchy_param = 0, camera_position_sigma = 0, camera_pose_sigma = 0, gcp_sigma = 0,
       outlier_sd_cutoff = 0, use_user_lambda = False, use_ba_type_dirs = False,
       save_iteration_data = False, remove_outliers = False, min_matches = 0,
       report_level = 0, max_iterations = 0, camera_files = [], cnet_file = [],
       data_dir = [], results_dir = [], config_file = [] \<rparr>"

definition example_vm :: variables_map where
  "example_vm =
     \<lparr> vm_help = False, vm_report_level = None, vm_config_file = None,
       vm_print_config = False, vm_bundle_adjustment_type = None,
       vm_cnet = Some ''control.cnet'', vm_lambda = None, vm_control = Some 1,
       vm_huber_param = None, vm_cauchy_param = None, vm_camera_position_sigma = None,
       vm_camera_pose_sigma = None, vm_gcp_sigma = None, vm_save_iteration_data = False,
       vm_max_iterations = Some 2, vm_min_matches = None, vm_data_dir = None,
       vm_results_dir = None, vm_use_ba_type_dirs = False, vm_remove_outliers = False,
       vm_outlier_sd_cutoff = Some 3, vm_input_files = [''cam0.pinhole'', ''cam1.pinhole''] \<rparr>"

section \<open>Properties of option parsing\<close>

lemmas ex_defs = example_externals_def example_solver_def example_config_def example_world_def
  example_disk_def example_model_def example_network_def example_cameras_def

lemmas run_defs = adjust_bundles_def first_pass_def first_adjuster_def new_adjuster_def set_control_def
  set_lambda_def results_dir_of_def run_bundle_adjustment_def update_def end_tie_in_def
  reload_def remove_outliers_call_def editor_command_def load_control_network_def read_network_def
  new_model_no_outliers_def BundleAdjustmentModel_new_def second_adjusters_def cameras_def
  set_A_parameters_def set_B_parameters_def clear_report_files_def truncate_file_def
  write_points_append_def write_adjusted_cameras_append_def append_rows_def path_append_def
  stream_opens_def dir_exists_def parent_path_def contents_def
  is_regular_file_def extension_def leaf_def camera_rows_def camera_vector_t_def
  MeanErrorsFile_def ProcessedCnetFile_def ConfigFileDefault_def CameraParamsReportFile_def
  PointsReportFile_def CnetEditor_def




text \<open>
  C9. Whenever \<^verbatim>\<open>parse_options\<close> returns options, outlier removal is enabled in
  them exactly if the switch \<open>remove-outliers\<close> was given or a value was given
  for \<open>outlier-sd-cutoff\<close>: a cutoff given by the user enables removal without
  the switch, and with neither given removal stays disabled.
\<close>

theorem parse_options_remove_outliers:
  "parse_options fsys opts0 vm = Inr opts
   \<Longrightarrow> remove_outliers opts = (vm_remove_outliers vm \<or> vm_outlier_sd_cutoff vm \<noteq> None)"
  by (auto simp add: parse_options_def notify_def Let_def with_default_def split: if_splits)

theorem parse_options_remove_outliers_witness:
  "\<exists>opts. parse_options example_disk blank_options example_vm = Inr opts
     \<and> \<not> vm_remove_outliers example_vm
     \<and> vm_outlier_sd_cutoff example_vm = Some 3
     \<and> remove_outliers opts
     \<and> outlier_sd_cutoff opts = 3"
proof -
  obtain opts where o: "parse_options example_disk blank_options example_vm = Inr opts"
    by (simp add: parse_options_def example_disk_def example_vm_def is_regular_file_def
        with_default_def ConfigFileDefault_def notify_def Let_def)
  have "outlier_sd_cutoff opts = 3"
    using o by (auto simp: parse_options_def example_vm_def notify_def Let_def with_default_def
        split: if_splits)
  with parse_options_remove_outliers [OF o] o show ?thesis
    by (simp add: example_vm_def)
qed

section \<open>Properties of the parameter model\<close>

lemma check_measures_ok:
  "check_measures n ms = Inr u \<longleftrightarrow> (\<forall>m\<in>set ms. int (image_id m) < n)"
  by (induction ms) auto

lemma check_measures_err:
  "check_measures n ms = Inl e \<Longrightarrow> e = ArgumentErr ''Invalid control point: has image_id() larger than camera vector''"
  by (induction ms) (auto split: if_splits)

lemma check_measures_bad:
  "check_measures n ms = Inl e \<Longrightarrow> \<exists>m\<in>set ms. \<not> int (image_id m) < n"
  by (induction ms) (auto split: if_splits)

lemma check_points_ok:
  "check_points n ps = Inr u \<longleftrightarrow> (\<forall>p\<in>set ps. \<forall>m\<in>set (measures p). int (image_id m) < n)"
  by (induction ps) (auto simp: check_measures_ok split: sum.splits dest: check_measures_bad)

lemma check_points_err:
  "check_points n ps = Inl e \<Longrightarrow> e = ArgumentErr ''Invalid control point: has image_id() larger than camera vector''"
  by (induction ps) (auto split: sum.splits dest: check_measures_err)

text \<open>
  C5. Construction fails with the argument error of the sanity check whenever
  some measure of the network names a camera index that is not below the
  number of cameras; the index is neither clamped nor the measure dropped,
  since no model is returned at all. When construction returns a model, every
  measure of its network names a camera of its camera list, the model holds the
  cameras and the network it was given, and the parameter arrays and their
  targets have one entry per camera and one per point.
\<close>

theorem model_new_checks:
  "((\<exists>p\<in>set network. \<exists>m\<in>set (measures p). length cams \<le> image_id m)
      \<longrightarrow> BundleAdjustmentModel_new cams network s1 s2 s3
          = Inl (ArgumentErr ''Invalid control point: has image_id() larger than camera vector''))
   \<and> (\<forall>m. BundleAdjustmentModel_new cams network s1 s2 s3 = Inr m
        \<longrightarrow> (\<forall>p\<in>set (m_network m). \<forall>cm\<in>set (measures p). image_id cm < length (m_cameras m))
          \<and> m_cameras m = cams \<and> m_network m = network
          \<and> num_cameras m = length cams \<and> num_points m = length network
          \<and> length (a m) = length cams \<and> length (b m) = length network
          \<and> length (a_target m) = length cams \<and> length (b_target m) = length network)"
proof (intro conjI impI allI)
  assume bad: "\<exists>p\<in>set network. \<exists>m\<in>set (measures p). length cams \<le> image_id m"
  have "\<not> (\<exists>u. check_points (int (length cams)) network = Inr u)"
    using bad by (simp add: check_points_ok not_less)
  then obtain e where e: "check_points (int (length cams)) network = Inl e"
    by (cases "check_points (int (length cams)) network") auto
  from check_points_err [OF e] e
  show "BundleAdjustmentModel_new cams network s1 s2 s3
          = Inl (ArgumentErr ''Invalid control point: has image_id() larger than camera vector'')"
    by (simp add: BundleAdjustmentModel_new_def)
next
  fix m assume ok: "BundleAdjustmentModel_new cams network s1 s2 s3 = Inr m"
  then obtain u where u: "check_points (int (length cams)) network = Inr u"
    by (auto simp: BundleAdjustmentModel_new_def Let_def split: sum.splits)
  from ok u show "m_cameras m = cams" "m_network m = network"
    "num_cameras m = length cams" "num_points m = length network"
    "length (a m) = length cams" "length (b m) = length network"
    "length (a_target m) = length cams" "length (b_target m) = length network"
    by (auto simp: BundleAdjustmentModel_new_def Let_def num_cameras_def num_points_def)
  with u show "\<forall>p\<in>set (m_network m). \<forall>cm\<in>set (measures p). image_id cm < length (m_cameras m)"
    by (auto simp: check_points_ok)
qed

theorem model_new_checks_witness:
  "length [PinholeModel ''cam0.pinhole''] \<le> image_id (measures (example_network ! 0) ! 1)
   \<and> BundleAdjustmentModel_new [PinholeModel ''cam0.pinhole''] example_network 1 (1 / 2) (1 / 4)
     = Inl (ArgumentErr ''Invalid control point: has image_id() larger than camera vector'')
   \<and> BundleAdjustmentModel_new example_cameras example_network 1 (1 / 2) (1 / 4) = Inr example_model
   \<and> list_all (\<lambda>p. list_all (\<lambda>cm. image_id cm < length (m_cameras example_model)) (measures p))
        (m_network example_model)
   \<and> num_cameras example_model = 2 \<and> num_points example_model = 2"
proof -
  have idx: "length [PinholeModel ''cam0.pinhole''] \<le> image_id (measures (example_network ! 0) ! 1)"
    by (simp add: example_network_def)
  have bad: "\<exists>p\<in>set example_network. \<exists>m\<in>set (measures p).
       length [PinholeModel ''cam0.pinhole''] \<le> image_id m"
    by (simp add: example_network_def)
  have ok: "BundleAdjustmentModel_new example_cameras example_network 1 (1 / 2) (1 / 4)
      = Inr example_model"
    by (simp add: BundleAdjustmentModel_new_def example_cameras_def example_network_def
        example_model_def camera_vector_t_def Let_def eval_nat_numeral)
  from model_new_checks [of example_network "[PinholeModel ''cam0.pinhole'']" 1 "1 / 2" "1 / 4"] bad
  have err: "BundleAdjustmentModel_new [PinholeModel ''cam0.pinhole''] example_network 1 (1 / 2) (1 / 4)
     = Inl (ArgumentErr ''Invalid control point: has image_id() larger than camera vector'')"
    by blast
  from model_new_checks [of example_network example_cameras 1 "1 / 2" "1 / 4"] ok
  have "\<forall>p\<in>set (m_network example_model). \<forall>cm\<in>set (measures p).
           image_id cm < length (m_cameras example_model)"
    and "num_cameras example_model = length example_cameras"
    and "num_points example_model = length example_network"
    by blast+
  then have "list_all (\<lambda>p. list_all (\<lambda>cm. image_id cm < length (m_cameras example_model)) (measures p))
        (m_network example_model)"
    and "num_cameras example_model = 2" and "num_points example_model = 2"
    by (simp_all add: list_all_iff example_cameras_def example_network_def)
  with idx err ok show ?thesis
    by blast
qed

lemma A_inv: "A_inverse_covariance m j =
     [[1 / (m_camera_position_sigma m)\<^sup>2, 0, 0, 0, 0, 0],
      [0, 1 / (m_camera_position_sigma m)\<^sup>2, 0, 0, 0, 0],
      [0, 0, 1 / (m_camera_position_sigma m)\<^sup>2, 0, 0, 0],
      [0, 0, 0, 1 / (m_camera_pose_sigma m)\<^sup>2, 0, 0],
      [0, 0, 0, 0, 1 / (m_camera_pose_sigma m)\<^sup>2, 0],
      [0, 0, 0, 0, 0, 1 / (m_camera_pose_sigma m)\<^sup>2]]"
  by (simp add: A_inverse_covariance_def zero_matrix_def set_elem_def Let_def eval_nat_numeral)

lemma B_inv: "B_inverse_covariance m i =
     [[1 / (m_gcp_sigma m)\<^sup>2, 0, 0],
      [0, 1 / (m_gcp_sigma m)\<^sup>2, 0],
      [0, 0, 1 / (m_gcp_sigma m)\<^sup>2]]"
  by (simp add: B_inverse_covariance_def zero_matrix_def set_elem_def Let_def eval_nat_numeral)

text \<open>
  C7. For every camera index the camera precision matrix is the 6 by 6 diagonal
  matrix with \<open>1 / sigma\<^sup>2\<close> of the camera position sigma in its first three
  diagonal places and of the camera pose sigma in its last three, and for every
  point index the point precision matrix is the 3 by 3 diagonal matrix with
  \<open>1 / sigma\<^sup>2\<close> of the ground control sigma. Both are functions of the sigma
  fields the model holds at the call (the model has no field that could cache
  them): after a sigma field has been given a new value, the accessor returns
  the matrix of the new value. The sigmas are taken non-zero, where the real
  quotient is the value of the floating point quotient up to rounding.
\<close>

theorem inverse_covariance_diagonal:
  assumes "m_camera_position_sigma m \<noteq> 0" and "m_camera_pose_sigma m \<noteq> 0"
    and "m_gcp_sigma m \<noteq> 0" and "s \<noteq> 0"
  shows "A_inverse_covariance m j =
     [[1 / (m_camera_position_sigma m)\<^sup>2, 0, 0, 0, 0, 0],
      [0, 1 / (m_camera_position_sigma m)\<^sup>2, 0, 0, 0, 0],
      [0, 0, 1 / (m_camera_position_sigma m)\<^sup>2, 0, 0, 0],
      [0, 0, 0, 1 / (m_camera_pose_sigma m)\<^sup>2, 0, 0],
      [0, 0, 0, 0, 1 / (m_camera_pose_sigma m)\<^sup>2, 0],
      [0, 0, 0, 0, 0, 1 / (m_camera_pose_sigma m)\<^sup>2]]
   \<and> B_inverse_covariance m i =
     [[1 / (m_gcp_sigma m)\<^sup>2, 0, 0],
      [0, 1 / (m_gcp_sigma m)\<^sup>2, 0],
      [0, 0, 1 / (m_gcp_sigma m)\<^sup>2]]
   \<and> A_inverse_covariance (m \<lparr> m_camera_position_sigma := s \<rparr>) j =
     [[1 / s\<^sup>2, 0, 0, 0, 0, 0],
      [0, 1 / s\<^sup>2, 0, 0, 0, 0],
      [0, 0, 1 / s\<^sup>2, 0, 0, 0],
      [0, 0, 0, 1 / (m_camera_pose_sigma m)\<^sup>2, 0, 0],
      [0, 0, 0, 0, 1 / (m_camera_pose_sigma m)\<^sup>2, 0],
      [0, 0, 0, 0, 0, 1 / (m_camera_pose_sigma m)\<^sup>2]]
   \<and> A_inverse_covariance (m \<lparr> m_camera_pose_sigma := s \<rparr>) j =
     [[1 / (m_camera_position_sigma m)\<^sup>2, 0, 0, 0, 0, 0],
      [0, 1 / (m_camera_position_sigma m)\<^sup>2, 0, 0, 0, 0],
      [0, 0, 1 / (m_camera_position_sigma m)\<^sup>2, 0, 0, 0],
      [0, 0, 0, 1 / s\<^sup>2, 0, 0],
      [0, 0, 0, 0, 1 / s\<^sup>2, 0],
      [0, 0, 0, 0, 0, 1 / s\<^sup>2]]
   \<and> B_inverse_covariance (m \<lparr> m_gcp_sigma := s \<rparr>) i =
     [[1 / s\<^sup>2, 0, 0],
      [0, 1 / s\<^sup>2, 0],
      [0, 0, 1 / s\<^sup>2]]"
  by (simp add: A_inv B_inv)

theorem inverse_covariance_diagonal_witness:
  "m_camera_position_sigma example_model \<noteq> 0 \<and> m_camera_pose_sigma example_model \<noteq> 0
   \<and> m_gcp_sigma example_model \<noteq> 0 \<and> (1 / 10 :: real) \<noteq> 0
   \<and> A_inverse_covariance example_model 1 =
     [[1, 0, 0, 0, 0, 0],
      [0, 1, 0, 0, 0, 0],
      [0, 0, 1, 0, 0, 0],
      [0, 0, 0, 4, 0, 0],
      [0, 0, 0, 0, 4, 0],
      [0, 0, 0, 0, 0, 4]]
   \<and> B_inverse_covariance example_model 0 = [[16, 0, 0], [0, 16, 0], [0, 0, 16]]
   \<and> B_inverse_covariance (example_model \<lparr> m_gcp_sigma := 1 / 10 \<rparr>) 0
     = [[100, 0, 0], [0, 100, 0], [0, 0, 100]]"
  using inverse_covariance_diagonal [of example_model "1 / 10" 1 0]
  by (simp add: example_model_def power2_eq_square)

section \<open>Properties of the iteration loop\<close>

lemma update_iterations:
  "update x adj ta tr = (d', ta', tr', adj') \<Longrightarrow> adj_iterations adj' = step_iterations (solver x adj ta tr)"
  by (auto simp: update_def Let_def)

lemma ba_loop_stop:
  "stop_now mi (d, ta, tr, adj) \<Longrightarrow> ba_loop x dir mi save (Suc n) d ta tr adj w = Some (adj, w)"
  by (auto simp: stop_now_def)

lemma ba_loop_step:
  "\<not> stop_now mi (d, ta, tr, adj) \<Longrightarrow> update x adj ta tr = (d', ta', tr', adj') \<Longrightarrow>
   ba_loop x dir mi save (Suc n) d ta tr adj w =
     ba_loop x dir mi save n d' ta' tr' adj'
       (if save
        then w \<lparr> trace := trace w @ [EvUpdate],
                 disk := write_points_append (adj_model adj') PointsReportFile dir
                           (write_adjusted_cameras_append (adj_model adj') CameraParamsReportFile dir (disk w)) \<rparr>
        else w \<lparr> trace := trace w @ [EvUpdate] \<rparr>)"
  by (auto simp: stop_now_def Let_def)

declare ba_loop.simps(2) [simp del]

lemma ba_loop_Some:
  "ba_loop x dir mi save fuel d ta tr adj w = Some (adj', w') \<Longrightarrow>
   \<exists>k<fuel. stop_now mi (after_updates x k (d, ta, tr, adj))
     \<and> (\<forall>i<k. \<not> stop_now mi (after_updates x i (d, ta, tr, adj)))
     \<and> adj' = adjuster_of (after_updates x k (d, ta, tr, adj))
     \<and> trace w' = trace w @ replicate k EvUpdate"
proof (induction fuel arbitrary: d ta tr adj w)
  case 0
  then show ?case by simp
next
  case (Suc n)
  show ?case
  proof (cases "stop_now mi (d, ta, tr, adj)")
    case True
    with Suc.prems have "adj' = adj" "w' = w"
      by (simp_all add: ba_loop_stop)
    with True show ?thesis
      by (intro exI [of _ 0]) (simp add: adjuster_of_def)
  next
    case False
    obtain d1 ta1 tr1 adj1 where u: "update x adj ta tr = (d1, ta1, tr1, adj1)"
      by (cases "update x adj ta tr") auto
    let ?w = "if save
        then w \<lparr> trace := trace w @ [EvUpdate],
                 disk := write_points_append (adj_model adj1) PointsReportFile dir
                           (write_adjusted_cameras_append (adj_model adj1) CameraParamsReportFile dir (disk w)) \<rparr>
        else w \<lparr> trace := trace w @ [EvUpdate] \<rparr>"
    from Suc.prems ba_loop_step [OF False u]
    have "ba_loop x dir mi save n d1 ta1 tr1 adj1 ?w = Some (adj', w')"
      by simp
    from Suc.IH [OF this] obtain k where k: "k < n"
      "stop_now mi (after_updates x k (d1, ta1, tr1, adj1))"
      "\<forall>i<k. \<not> stop_now mi (after_updates x i (d1, ta1, tr1, adj1))"
      "adj' = adjuster_of (after_updates x k (d1, ta1, tr1, adj1))"
      "trace w' = trace ?w @ replicate k EvUpdate"
      by blast
    have "\<forall>i<Suc k. \<not> stop_now mi (after_updates x i (d, ta, tr, adj))"
    proof (intro allI impI)
      fix i assume "i < Suc k"
      then show "\<not> stop_now mi (after_updates x i (d, ta, tr, adj))"
        using False k(3) u by (cases i) auto
    qed
    moreover have "trace w' = trace w @ replicate (Suc k) EvUpdate"
      using k(5) by (simp add: replicate_append_same)
    ultimately show ?thesis
      using k(1,2,4) u by (intro exI [of _ "Suc k"]) simp
  qed
qed

lemma after_updates_iterations:
  "counts_iterations x \<Longrightarrow>
   adj_iterations adj + int k \<le> adj_iterations (adjuster_of (after_updates x k (d, ta, tr, adj)))"
proof (induction k arbitrary: d ta tr adj)
  case 0
  then show ?case by (simp add: adjuster_of_def)
next
  case (Suc k)
  obtain d1 ta1 tr1 adj1 where u: "update x adj ta tr = (d1, ta1, tr1, adj1)"
    by (cases "update x adj ta tr") auto
  from Suc.prems update_iterations [OF u] have "adj_iterations adj < adj_iterations adj1"
    by (simp add: counts_iterations_def)
  with Suc.IH [OF Suc.prems, of adj1 d1 ta1 tr1] u show ?case
    by simp
qed

lemma steps_bounded:
  assumes c: "counts_iterations x"
    and running: "\<forall>i<k. \<not> stop_now mi (after_updates x i (d, ta, tr, adj))"
  shows "int k \<le> max 0 (mi - adj_iterations adj)"
proof (cases k)
  case 0
  then show ?thesis by simp
next
  case (Suc j)
  with running have "\<not> stop_now mi (after_updates x j (d, ta, tr, adj))"
    by simp
  then have "adj_iterations (adjuster_of (after_updates x j (d, ta, tr, adj))) < mi"
    by (cases "after_updates x j (d, ta, tr, adj)") (auto simp: stop_now_def adjuster_of_def)
  with after_updates_iterations [OF c, of adj j d ta tr] Suc show ?thesis
    by simp
qed

lemma ba_loop_terminates:
  "counts_iterations x \<Longrightarrow> nat (mi - adj_iterations adj) < fuel \<Longrightarrow>
   ba_loop x dir mi save fuel d ta tr adj w \<noteq> None"
proof (induction fuel arbitrary: d ta tr adj w)
  case 0
  then show ?case by simp
next
  case (Suc n)
  show ?case
  proof (cases "stop_now mi (d, ta, tr, adj)")
    case True
    then show ?thesis by (simp add: ba_loop_stop)
  next
    case False
    obtain d1 ta1 tr1 adj1 where u: "update x adj ta tr = (d1, ta1, tr1, adj1)"
      by (cases "update x adj ta tr") auto
    from Suc.prems(1) update_iterations [OF u] have "adj_iterations adj < adj_iterations adj1"
      by (simp add: counts_iterations_def)
    moreover from False have "adj_iterations adj < mi"
      by (auto simp: stop_now_def)
    ultimately have "nat (mi - adj_iterations adj1) < n"
      using Suc.prems(2) by linarith
    from Suc.IH [OF Suc.prems(1) this] ba_loop_step [OF False u]
    show ?thesis by simp
  qed
qed

text \<open>
  C2. Let the solver raise its iteration count at every step and let the
  adjuster start with a count that is not negative. Then, with fuel above the
  maximum, \<^verbatim>\<open>run_bundle_adjustment\<close> returns, and there is a number \<open>k\<close> of solver
  steps such that: \<open>k\<close> is at most the maximum iteration count (none for a
  maximum that is not positive); the stop rule holds in the state after \<open>k\<close>
  steps and in no earlier state, so the loop leaves at the first state in
  which the last delta is zero, the count has reached the maximum or a
  tolerance is below \<open>1e-3\<close>, these being tested before every step, the first
  included; the adjuster returned is the one after \<open>k\<close> steps; and the trace is
  \<open>k\<close> updates followed by one call of the reporter's \<^verbatim>\<open>end_tie_in\<close>.
\<close>

theorem run_bundle_adjustment_stops:
  assumes c: "counts_iterations x"
    and i0: "0 \<le> adj_iterations adj"
    and fuel: "nat max_iter < fuel"
  shows "\<exists>k adj' w'.
      run_bundle_adjustment x fuel adj rep dir max_iter save w = Some (adj', w')
    \<and> int k \<le> max 0 max_iter
    \<and> stop_now max_iter (after_updates x k (2, 10 ^ 10, 10 ^ 10, adj))
    \<and> (\<forall>i<k. \<not> stop_now max_iter (after_updates x i (2, 10 ^ 10, 10 ^ 10, adj)))
    \<and> adj' = adjuster_of (after_updates x k (2, 10 ^ 10, 10 ^ 10, adj))
    \<and> trace w' = trace w @ replicate k EvUpdate @ [EvEndTieIn (rep_name rep)]"
proof -
  from i0 fuel have "nat (max_iter - adj_iterations adj) < fuel"
    by linarith
  from ba_loop_terminates [OF c this]
  obtain adj' w1 where l: "ba_loop x dir max_iter save fuel 2 (10 ^ 10) (10 ^ 10) adj w = Some (adj', w1)"
    by fastforce
  from ba_loop_Some [OF l] obtain k where k:
    "stop_now max_iter (after_updates x k (2, 10 ^ 10, 10 ^ 10, adj))"
    "\<forall>i<k. \<not> stop_now max_iter (after_updates x i (2, 10 ^ 10, 10 ^ 10, adj))"
    "adj' = adjuster_of (after_updates x k (2, 10 ^ 10, 10 ^ 10, adj))"
    "trace w1 = trace w @ replicate k EvUpdate"
    by blast
  from steps_bounded [OF c k(2)] i0 have "int k \<le> max 0 max_iter"
    by linarith
  moreover have "run_bundle_adjustment x fuel adj rep dir max_iter save w
      = Some (adj', end_tie_in x rep adj' w1)"
    using l by (simp add: run_bundle_adjustment_def)
  moreover have "trace (end_tie_in x rep adj' w1) = trace w @ replicate k EvUpdate @ [EvEndTieIn (rep_name rep)]"
    using k(4) by (simp add: end_tie_in_def)
  ultimately show ?thesis
    using k(1,2,3) by blast
qed

theorem run_bundle_adjustment_stops_witness:
  "counts_iterations example_externals
   \<and> 0 \<le> adj_iterations (new_adjuster example_externals AdjustRef example_model L2Error)
   \<and> nat 2 < (3::nat)
   \<and> (\<exists>k adj' w'.
        run_bundle_adjustment example_externals 3
          (new_adjuster example_externals AdjustRef example_model L2Error)
          \<lparr> rep_name = ''Reference'', rep_level = 35 \<rparr> ''out'' 2 True example_world = Some (adj', w')
      \<and> int k \<le> max 0 2
      \<and> trace w' = trace example_world @ replicate k EvUpdate @ [EvEndTieIn ''Reference''])"
proof -
  have c: "counts_iterations example_externals"
    by (simp add: counts_iterations_def example_externals_def example_solver_def)
  have i0: "0 \<le> adj_iterations (new_adjuster example_externals AdjustRef example_model L2Error)"
    by (simp add: new_adjuster_def example_externals_def)
  have f: "nat 2 < (3::nat)"
    by simp
  from run_bundle_adjustment_stops [OF c i0 f,
      of "\<lparr> rep_name = ''Reference'', rep_level = 35 \<rparr>" "''out''" True example_world]
  obtain k adj' w' where
    "run_bundle_adjustment example_externals 3
          (new_adjuster example_externals AdjustRef example_model L2Error)
          \<lparr> rep_name = ''Reference'', rep_level = 35 \<rparr> ''out'' 2 True example_world = Some (adj', w')"
    "int k \<le> max 0 2"
    "trace w' = trace example_world @ replicate k EvUpdate @ [EvEndTieIn ''Reference'']"
    by auto
  with c i0 f show ?thesis
    by blast
qed

lemma enumerate_map_nth:
  "map (\<lambda>(i, v). f i v) (enumerate 0 xs) = map (\<lambda>i. f i (xs ! i)) [0..<length xs]"
proof (rule nth_equalityI)
  show "length (map (\<lambda>(i, v). f i v) (enumerate 0 xs)) = length (map (\<lambda>i. f i (xs ! i)) [0..<length xs])"
    by simp
next
  fix i assume "i < length (map (\<lambda>(i, v). f i v) (enumerate 0 xs))"
  then have "i < length xs" by simp
  then show "map (\<lambda>(i, v). f i v) (enumerate 0 xs) ! i = map (\<lambda>i. f i (xs ! i)) [0..<length xs] ! i"
    by (simp add: nth_enumerate_eq del: upt_Suc)
qed

lemma report_paths_differ:
  "path_append dir CameraParamsReportFile \<noteq> path_append dir PointsReportFile"
  by (simp add: path_append_def CameraParamsReportFile_def PointsReportFile_def)

lemma report_paths_not_dir:
  "path_append dir CameraParamsReportFile \<noteq> dir" "path_append dir PointsReportFile \<noteq> dir"
  by (simp_all add: path_append_def CameraParamsReportFile_def PointsReportFile_def)

lemma parent_of_report_paths:
  "parent_path (path_append dir CameraParamsReportFile) = dir"
  "parent_path (path_append dir PointsReportFile) = dir"
  by (simp_all add: parent_path_def path_append_def CameraParamsReportFile_def PointsReportFile_def)

lemma stream_opens_report_paths:
  "stream_opens fsys (path_append dir CameraParamsReportFile)
     = (dir_exists fsys dir \<and> fsys (path_append dir CameraParamsReportFile) \<noteq> Some Directory)"
  "stream_opens fsys (path_append dir PointsReportFile)
     = (dir_exists fsys dir \<and> fsys (path_append dir PointsReportFile) \<noteq> Some Directory)"
  by (simp_all add: stream_opens_def parent_of_report_paths)

lemma append_rows_elsewhere:
  "q \<noteq> p \<Longrightarrow> append_rows p rs fsys q = fsys q"
  by (simp add: append_rows_def)

lemma append_rows_there:
  "append_rows p rs fsys p =
     (if stream_opens fsys p then Some (Regular (contents fsys p @ map Row rs)) else fsys p)"
  by (simp add: append_rows_def)

lemma append_rows_keeps_stream:
  "q \<noteq> p \<Longrightarrow> parent_path q \<noteq> p \<Longrightarrow>
   stream_opens (append_rows p rs fsys) q = stream_opens fsys q"
  by (simp add: stream_opens_def dir_exists_def append_rows_elsewhere)

lemma append_rows_keeps_contents:
  "q \<noteq> p \<Longrightarrow> contents (append_rows p rs fsys) q = contents fsys q"
  by (simp add: contents_def append_rows_elsewhere)

lemma save_iteration_camera_file:
  "save_iteration dir m fsys (path_append dir CameraParamsReportFile) =
     (if stream_opens fsys (path_append dir CameraParamsReportFile)
      then Some (Regular (contents fsys (path_append dir CameraParamsReportFile)
             @ map Row (concat (map (\<lambda>j. camera_rows j (a m ! j)) [0..<num_cameras m]))))
      else fsys (path_append dir CameraParamsReportFile))"
  using report_paths_differ [of dir]
  by (simp add: save_iteration_def write_points_append_def write_adjusted_cameras_append_def
      append_rows_elsewhere append_rows_there enumerate_map_nth num_cameras_def)

lemma save_iteration_point_file:
  "save_iteration dir m fsys (path_append dir PointsReportFile) =
     (if stream_opens fsys (path_append dir PointsReportFile)
      then Some (Regular (contents fsys (path_append dir PointsReportFile)
             @ map Row (map (\<lambda>i. (i, take 3 (b m ! i))) [0..<num_points m])))
      else fsys (path_append dir PointsReportFile))"
proof -
  have d: "path_append dir PointsReportFile \<noteq> path_append dir CameraParamsReportFile"
    using report_paths_differ [of dir] by simp
  have e: "parent_path (path_append dir PointsReportFile) \<noteq> path_append dir CameraParamsReportFile"
    using report_paths_not_dir(1) [of dir] by (simp add: parent_of_report_paths)
  show ?thesis
    by (simp add: save_iteration_def write_points_append_def write_adjusted_cameras_append_def
        append_rows_there append_rows_keeps_stream [OF d e] append_rows_keeps_contents [OF d]
        append_rows_elsewhere [OF d] enumerate_map_nth num_points_def)
qed

lemma save_iteration_elsewhere:
  "p \<noteq> path_append dir CameraParamsReportFile \<Longrightarrow> p \<noteq> path_append dir PointsReportFile \<Longrightarrow>
   save_iteration dir m fsys p = fsys p"
  by (simp add: save_iteration_def write_points_append_def write_adjusted_cameras_append_def
      append_rows_elsewhere)

lemma ba_loop_step_save:
  "\<not> stop_now mi (d, ta, tr, adj) \<Longrightarrow> update x adj ta tr = (d', ta', tr', adj') \<Longrightarrow>
   ba_loop x dir mi True (Suc n) d ta tr adj w =
     ba_loop x dir mi True n d' ta' tr' adj'
       (w \<lparr> trace := trace w @ [EvUpdate], disk := save_iteration dir (adj_model adj') (disk w) \<rparr>)"
  by (simp add: ba_loop_step save_iteration_def)

lemma ba_loop_saved:
  "ba_loop x dir mi True fuel d ta tr adj w = Some (adj', w') \<Longrightarrow>
   \<exists>k. trace w' = trace w @ replicate k EvUpdate
     \<and> disk w' = fold (\<lambda>i. save_iteration dir
                          (adj_model (adjuster_of (after_updates x i (d, ta, tr, adj)))))
                   [1..<Suc k] (disk w)"
proof (induction fuel arbitrary: d ta tr adj w)
  case 0
  then show ?case by simp
next
  case (Suc n)
  show ?case
  proof (cases "stop_now mi (d, ta, tr, adj)")
    case True
    with Suc.prems have "w' = w" by (simp add: ba_loop_stop)
    then show ?thesis by (intro exI [of _ 0]) simp
  next
    case False
    obtain d1 ta1 tr1 adj1 where u: "update x adj ta tr = (d1, ta1, tr1, adj1)"
      by (cases "update x adj ta tr") auto
    let ?w = "w \<lparr> trace := trace w @ [EvUpdate], disk := save_iteration dir (adj_model adj1) (disk w) \<rparr>"
    let ?f = "\<lambda>i. save_iteration dir (adj_model (adjuster_of (after_updates x i (d, ta, tr, adj))))"
    let ?g = "\<lambda>i. save_iteration dir (adj_model (adjuster_of (after_updates x i (d1, ta1, tr1, adj1))))"
    from Suc.prems ba_loop_step_save [OF False u]
    have "ba_loop x dir mi True n d1 ta1 tr1 adj1 ?w = Some (adj', w')"
      by simp
    from Suc.IH [OF this] obtain k where k: "trace w' = trace ?w @ replicate k EvUpdate"
      "disk w' = fold ?g [1..<Suc k] (disk ?w)"
      by blast
    have shift: "?f \<circ> Suc = ?g"
      using u by (simp add: fun_eq_iff)
    have first: "?f 1 = save_iteration dir (adj_model adj1)"
      using u by (simp add: adjuster_of_def)
    have "[1..<Suc (Suc k)] = 1 # map Suc [1..<Suc k]"
      by (simp add: upt_conv_Cons map_Suc_upt del: upt_Suc)
    then have "fold ?f [1..<Suc (Suc k)] (disk w) = fold (?f \<circ> Suc) [1..<Suc k] (?f 1 (disk w))"
      by (simp add: fold_map del: upt_Suc)
    with shift first k(2) have "disk w' = fold ?f [1..<Suc (Suc k)] (disk w)"
      by simp
    moreover have "trace w' = trace w @ replicate (Suc k) EvUpdate"
      using k(1) by (simp add: replicate_append_same)
    ultimately show ?thesis by blast
  qed
qed

lemma ba_loop_unsaved:
  "ba_loop x dir mi True fuel d ta tr adj w = Some (adj', w') \<Longrightarrow>
   ba_loop x dir mi False fuel d ta tr adj v = Some (adj', v \<lparr> trace := trace v @ drop (length (trace w)) (trace w') \<rparr>)"
proof (induction fuel arbitrary: d ta tr adj w v)
  case 0
  then show ?case by simp
next
  case (Suc n)
  show ?case
  proof (cases "stop_now mi (d, ta, tr, adj)")
    case True
    with Suc.prems have "adj' = adj" "w' = w" by (simp_all add: ba_loop_stop)
    with True show ?thesis by (simp add: ba_loop_stop)
  next
    case False
    obtain d1 ta1 tr1 adj1 where u: "update x adj ta tr = (d1, ta1, tr1, adj1)"
      by (cases "update x adj ta tr") auto
    let ?w = "w \<lparr> trace := trace w @ [EvUpdate], disk := save_iteration dir (adj_model adj1) (disk w) \<rparr>"
    let ?v = "v \<lparr> trace := trace v @ [EvUpdate] \<rparr>"
    from Suc.prems ba_loop_step_save [OF False u]
    have run: "ba_loop x dir mi True n d1 ta1 tr1 adj1 ?w = Some (adj', w')"
      by simp
    from ba_loop_Some [OF run] obtain k where "trace w' = trace ?w @ replicate k EvUpdate"
      by blast
    then have "drop (length (trace ?w)) (trace w') = replicate k EvUpdate"
      "drop (length (trace w)) (trace w') = EvUpdate # replicate k EvUpdate"
      by simp_all
    with Suc.IH [OF run, of ?v] ba_loop_step [OF False u, of dir False n v]
    show ?thesis by simp
  qed
qed

lemma ba_loop_no_result:
  "ba_loop x dir mi True fuel d ta tr adj w = None \<Longrightarrow>
   ba_loop x dir mi False fuel d ta tr adj v = None"
proof (induction fuel arbitrary: d ta tr adj w v)
  case 0
  then show ?case by simp
next
  case (Suc n)
  show ?case
  proof (cases "stop_now mi (d, ta, tr, adj)")
    case True
    with Suc.prems show ?thesis by (simp add: ba_loop_stop)
  next
    case False
    obtain d1 ta1 tr1 adj1 where u: "update x adj ta tr = (d1, ta1, tr1, adj1)"
      by (cases "update x adj ta tr") auto
    from Suc.prems ba_loop_step_save [OF False u]
    have "ba_loop x dir mi True n d1 ta1 tr1 adj1
        (w \<lparr> trace := trace w @ [EvUpdate], disk := save_iteration dir (adj_model adj1) (disk w) \<rparr>)
        = None"
      by simp
    from Suc.IH [OF this, of "v \<lparr> trace := trace v @ [EvUpdate] \<rparr>"]
      ba_loop_step [OF False u, of dir False n v]
    show ?thesis by simp
  qed
qed

text \<open>
  C6 (as stated, it fails). Take the two cameras of the instance after a step
  that has set the parameter vector of the first to \<open>(1, 1, 1, 7, 8, 9)\<close>. One
  snapshot of them is twelve rows, six for each camera and not one, and the
  rotation components \<open>7, 8, 9\<close> are in none of them: the file does not hold
  the full camera parameter vector.
\<close>

theorem snapshot_rows_counterexample:
  "a (set_A_parameters 0 [1, 1, 1, 7, 8, 9] example_model)
     = [[1, 1, 1, 7, 8, 9], [0, 0, 0, 0, 0, 0]]
   \<and> num_cameras (set_A_parameters 0 [1, 1, 1, 7, 8, 9] example_model) = 2
   \<and> write_adjusted_cameras_append (set_A_parameters 0 [1, 1, 1, 7, 8, 9] example_model)
       CameraParamsReportFile ''out'' example_disk ''out/iterCameraParam.txt''
     = Some (Regular
         [Row (0, [1, 1, 1]), Row (0, [1, 0, 0]), Row (0, [0, 1, 0]), Row (0, [0, 0, 1]),
          Row (0, [0, 0, 0]), Row (0, [0, 0, 0]),
          Row (1, [0, 0, 0]), Row (1, [1, 0, 0]), Row (1, [0, 1, 0]), Row (1, [0, 0, 1]),
          Row (1, [0, 0, 0]), Row (1, [0, 0, 0])])"
  by (simp add: ex_defs run_defs num_cameras_def)

text \<open>
  C6 (amended). The loop that saves iteration data returns exactly when the
  loop that does not save returns, with the same adjuster and the same steps in
  its trace, so the snapshot writes have no part in the decision to stop; and
  the disk it leaves is the disk it found after one snapshot write for every
  solver step taken, in order, each made from the model as that step left it.
  A snapshot write touches the camera file and the point file of the results
  directory and nothing else. For the camera file, if its stream opens (the
  results directory exists and the path is not a directory), the write puts
  after what the file holds six rows for every camera, all led by the index of
  the camera, the first holding the three translation components of its
  current parameter vector; for the point file, if its stream opens, one row
  for every point, led by the index of the point and holding its current
  parameter vector. A file whose stream does not open is left as it is (a
  missing one stays missing), and the rows are lost.
\<close>

theorem snapshots_appended:
  "ba_loop x dir max_iter True fuel overall_delta abs_tol rel_tol adj w =
     map_option
       (\<lambda>(adj', w'). (adj',
          w' \<lparr> disk := fold (\<lambda>i. save_iteration dir (adj_model (adjuster_of
                                (after_updates x i (overall_delta, abs_tol, rel_tol, adj)))))
                          [1..<Suc (length (trace w') - length (trace w))] (disk w) \<rparr>))
       (ba_loop x dir max_iter False fuel overall_delta abs_tol rel_tol adj w)
   \<and> (\<forall>m fsys.
        save_iteration dir m fsys (path_append dir CameraParamsReportFile) =
          (if stream_opens fsys (path_append dir CameraParamsReportFile)
           then Some (Regular (contents fsys (path_append dir CameraParamsReportFile)
                  @ map Row (concat (map (\<lambda>j. camera_rows j (a m ! j)) [0..<num_cameras m]))))
           else fsys (path_append dir CameraParamsReportFile))
      \<and> save_iteration dir m fsys (path_append dir PointsReportFile) =
          (if stream_opens fsys (path_append dir PointsReportFile)
           then Some (Regular (contents fsys (path_append dir PointsReportFile)
                  @ map Row (map (\<lambda>i. (i, take 3 (b m ! i))) [0..<num_points m])))
           else fsys (path_append dir PointsReportFile))
      \<and> (\<forall>p. p \<noteq> path_append dir CameraParamsReportFile \<and> p \<noteq> path_append dir PointsReportFile
            \<longrightarrow> save_iteration dir m fsys p = fsys p)
      \<and> stream_opens fsys (path_append dir CameraParamsReportFile)
          = (dir_exists fsys dir \<and> fsys (path_append dir CameraParamsReportFile) \<noteq> Some Directory)
      \<and> stream_opens fsys (path_append dir PointsReportFile)
          = (dir_exists fsys dir \<and> fsys (path_append dir PointsReportFile) \<noteq> Some Directory))
   \<and> (\<forall>j v. length (camera_rows j v) = 6
          \<and> map fst (camera_rows j v) = replicate 6 j
          \<and> hd (camera_rows j v) = (j, take 3 v))"
proof (intro conjI allI impI)
  let ?f = "\<lambda>i. save_iteration dir (adj_model (adjuster_of
                                (after_updates x i (overall_delta, abs_tol, rel_tol, adj))))"
  show "ba_loop x dir max_iter True fuel overall_delta abs_tol rel_tol adj w =
     map_option
       (\<lambda>(adj', w'). (adj',
          w' \<lparr> disk := fold ?f [1..<Suc (length (trace w') - length (trace w))] (disk w) \<rparr>))
       (ba_loop x dir max_iter False fuel overall_delta abs_tol rel_tol adj w)"
  proof (cases "ba_loop x dir max_iter True fuel overall_delta abs_tol rel_tol adj w")
    case None
    with ba_loop_no_result [OF None, of w] show ?thesis by simp
  next
    case (Some r)
    obtain adj' w' where r: "r = (adj', w')" by (cases r)
    from Some r have run: "ba_loop x dir max_iter True fuel overall_delta abs_tol rel_tol adj w
        = Some (adj', w')"
      by simp
    from ba_loop_saved [OF run] obtain k where k: "trace w' = trace w @ replicate k EvUpdate"
      "disk w' = fold ?f [1..<Suc k] (disk w)"
      by blast
    from ba_loop_unsaved [OF run, of w] k(1)
    have "ba_loop x dir max_iter False fuel overall_delta abs_tol rel_tol adj w
        = Some (adj', w \<lparr> trace := trace w' \<rparr>)"
      by simp
    moreover have "length (trace w') - length (trace w) = k"
      using k(1) by simp
    moreover have "w \<lparr> trace := trace w', disk := fold ?f [1..<Suc k] (disk w) \<rparr> = w'"
      using k(2) by simp
    ultimately show ?thesis
      using run by (simp del: upt_Suc)
  qed
next
  fix m fsys
  show "save_iteration dir m fsys (path_append dir CameraParamsReportFile) =
          (if stream_opens fsys (path_append dir CameraParamsReportFile)
           then Some (Regular (contents fsys (path_append dir CameraParamsReportFile)
                  @ map Row (concat (map (\<lambda>j. camera_rows j (a m ! j)) [0..<num_cameras m]))))
           else fsys (path_append dir CameraParamsReportFile))"
    by (rule save_iteration_camera_file)
  show "save_iteration dir m fsys (path_append dir PointsReportFile) =
          (if stream_opens fsys (path_append dir PointsReportFile)
           then Some (Regular (contents fsys (path_append dir PointsReportFile)
                  @ map Row (map (\<lambda>i. (i, take 3 (b m ! i))) [0..<num_points m])))
           else fsys (path_append dir PointsReportFile))"
    by (rule save_iteration_point_file)
  show "stream_opens fsys (path_append dir CameraParamsReportFile)
          = (dir_exists fsys dir \<and> fsys (path_append dir CameraParamsReportFile) \<noteq> Some Directory)"
    "stream_opens fsys (path_append dir PointsReportFile)
          = (dir_exists fsys dir \<and> fsys (path_append dir PointsReportFile) \<noteq> Some Directory)"
    by (simp_all add: stream_opens_report_paths)
next
  fix m fsys p
  assume "p \<noteq> path_append dir CameraParamsReportFile \<and> p \<noteq> path_append dir PointsReportFile"
  then show "save_iteration dir m fsys p = fsys p"
    by (simp add: save_iteration_elsewhere)
next
  fix j v
  show "length (camera_rows j v) = 6" "map fst (camera_rows j v) = replicate 6 j"
    "hd (camera_rows j v) = (j, take 3 v)"
    by (simp_all add: camera_rows_def eval_nat_numeral)
qed

lemma example_counts: "counts_iterations example_externals"
  by (simp add: counts_iterations_def example_externals_def example_solver_def)

theorem snapshots_appended_witness:
  "(\<exists>adj' w' v'.
      ba_loop example_externals ''out'' 2 True 3 2 (10 ^ 10) (10 ^ 10)
        (new_adjuster example_externals AdjustRef example_model L2Error)
        (example_world \<lparr> disk := cleared_disk \<rparr>) = Some (adj', w')
    \<and> ba_loop example_externals ''out'' 2 False 3 2 (10 ^ 10) (10 ^ 10)
        (new_adjuster example_externals AdjustRef example_model L2Error)
        (example_world \<lparr> disk := cleared_disk \<rparr>) = Some (adj', v')
    \<and> trace v' = trace w'
    \<and> contents (disk w') ''out/iterPointsParam.txt''
        = [Row (0, [9, 9, 9]), Row (1, [4, 5, 6]), Row (0, [9, 9, 9]), Row (1, [4, 5, 6])])
   \<and> stream_opens cleared_disk (path_append ''out'' CameraParamsReportFile)
   \<and> stream_opens cleared_disk (path_append ''out'' PointsReportFile)
   \<and> save_iteration ''out'' example_model cleared_disk ''out/iterCameraParam.txt''
       = Some (Regular
           [Row (0, [0, 0, 0]), Row (0, [1, 0, 0]), Row (0, [0, 1, 0]), Row (0, [0, 0, 1]),
            Row (0, [0, 0, 0]), Row (0, [0, 0, 0]),
            Row (1, [0, 0, 0]), Row (1, [1, 0, 0]), Row (1, [0, 1, 0]), Row (1, [0, 0, 1]),
            Row (1, [0, 0, 0]), Row (1, [0, 0, 0])])
   \<and> save_iteration ''out'' example_model cleared_disk ''out/iterPointsParam.txt''
       = Some (Regular [Row (0, [1, 2, 3]), Row (1, [4, 5, 6])])
   \<and> save_iteration ''out'' example_model cleared_disk ''out/processed.cnet''
       = cleared_disk ''out/processed.cnet''
   \<and> \<not> stream_opens example_disk (path_append ''out/ref_no_outliers'' CameraParamsReportFile)
   \<and> save_iteration ''out/ref_no_outliers'' example_model example_disk
        ''out/ref_no_outliers/iterCameraParam.txt'' = None"
proof -
  let ?adj = "new_adjuster example_externals AdjustRef example_model L2Error"
  let ?w = "example_world \<lparr> disk := cleared_disk \<rparr>"
  note inst = snapshots_appended [of example_externals "''out''" 2 3 2 "10 ^ 10" "10 ^ 10" ?adj ?w]
  note gone = snapshots_appended [of example_externals "''out/ref_no_outliers''" 2 3 2 "10 ^ 10"
      "10 ^ 10" ?adj ?w]
  have "nat (2 - adj_iterations ?adj) < 3"
    by (simp add: new_adjuster_def example_externals_def)
  from ba_loop_terminates [OF example_counts this, of "''out''" True 2 "10 ^ 10" "10 ^ 10" ?w]
  obtain adj' w' where run: "ba_loop example_externals ''out'' 2 True 3 2 (10 ^ 10) (10 ^ 10) ?adj ?w
      = Some (adj', w')"
    by auto
  with inst obtain v' where
    "ba_loop example_externals ''out'' 2 False 3 2 (10 ^ 10) (10 ^ 10) ?adj ?w = Some (adj', v')"
    "trace v' = trace w'"
    by auto
  moreover have "contents (disk w') ''out/iterPointsParam.txt''
        = [Row (0, [9, 9, 9]), Row (1, [4, 5, 6]), Row (0, [9, 9, 9]), Row (1, [4, 5, 6])]"
    using run
    by (simp add: cleared_disk_def ex_defs run_defs ba_loop.simps numeral_eq_Suc Let_def) auto
  ultimately have first: "\<exists>adj' w' v'.
      ba_loop example_externals ''out'' 2 True 3 2 (10 ^ 10) (10 ^ 10) ?adj ?w = Some (adj', w')
    \<and> ba_loop example_externals ''out'' 2 False 3 2 (10 ^ 10) (10 ^ 10) ?adj ?w = Some (adj', v')
    \<and> trace v' = trace w'
    \<and> contents (disk w') ''out/iterPointsParam.txt''
        = [Row (0, [9, 9, 9]), Row (1, [4, 5, 6]), Row (0, [9, 9, 9]), Row (1, [4, 5, 6])]"
    using run by blast
  have c: "stream_opens cleared_disk (path_append ''out'' CameraParamsReportFile)"
    and p: "stream_opens cleared_disk (path_append ''out'' PointsReportFile)"
    and n: "\<not> stream_opens example_disk (path_append ''out/ref_no_outliers'' CameraParamsReportFile)"
    by (simp_all add: cleared_disk_def ex_defs run_defs)
  have paths: "path_append ''out'' CameraParamsReportFile = ''out/iterCameraParam.txt''"
    "path_append ''out'' PointsReportFile = ''out/iterPointsParam.txt''"
    "path_append ''out/ref_no_outliers'' CameraParamsReportFile
       = ''out/ref_no_outliers/iterCameraParam.txt''"
    by (simp_all add: path_append_def CameraParamsReportFile_def PointsReportFile_def)
  from inst c p have "save_iteration ''out'' example_model cleared_disk ''out/iterCameraParam.txt''
       = Some (Regular (contents cleared_disk ''out/iterCameraParam.txt''
            @ map Row (concat (map (\<lambda>j. camera_rows j (a example_model ! j))
                 [0..<num_cameras example_model]))))"
    "save_iteration ''out'' example_model cleared_disk ''out/iterPointsParam.txt''
       = Some (Regular (contents cleared_disk ''out/iterPointsParam.txt''
            @ map Row (map (\<lambda>i. (i, take 3 (b example_model ! i))) [0..<num_points example_model])))"
    "save_iteration ''out'' example_model cleared_disk ''out/processed.cnet''
       = cleared_disk ''out/processed.cnet''"
    by (simp_all add: paths)
  then have rows: "save_iteration ''out'' example_model cleared_disk ''out/iterCameraParam.txt''
       = Some (Regular
           [Row (0, [0, 0, 0]), Row (0, [1, 0, 0]), Row (0, [0, 1, 0]), Row (0, [0, 0, 1]),
            Row (0, [0, 0, 0]), Row (0, [0, 0, 0]),
            Row (1, [0, 0, 0]), Row (1, [1, 0, 0]), Row (1, [0, 1, 0]), Row (1, [0, 0, 1]),
            Row (1, [0, 0, 0]), Row (1, [0, 0, 0])])"
    "save_iteration ''out'' example_model cleared_disk ''out/iterPointsParam.txt''
       = Some (Regular [Row (0, [1, 2, 3]), Row (1, [4, 5, 6])])"
    "save_iteration ''out'' example_model cleared_disk ''out/processed.cnet''
       = cleared_disk ''out/processed.cnet''"
    by (simp_all add: example_model_def num_cameras_def num_points_def camera_rows_def
        cleared_disk_def ex_defs run_defs upt_conv_Cons del: upt_Suc)
  from gone n have "save_iteration ''out/ref_no_outliers'' example_model example_disk
        ''out/ref_no_outliers/iterCameraParam.txt''
      = example_disk ''out/ref_no_outliers/iterCameraParam.txt''"
    by (simp add: paths)
  then have lost: "save_iteration ''out/ref_no_outliers'' example_model example_disk
        ''out/ref_no_outliers/iterCameraParam.txt'' = None"
    by (simp add: example_disk_def ConfigFileDefault_def)
  from first c p rows n lost show ?thesis
    by blast
qed

section \<open>Properties of the two pass cycle\<close>

lemma run_zero_budget:
  "max_iter \<le> adj_iterations adj \<Longrightarrow>
   run_bundle_adjustment x (Suc n) adj rep dir max_iter save w = Some (adj, end_tie_in x rep adj w)"
  by (simp add: run_bundle_adjustment_def ba_loop_stop stop_now_def)

lemma first_adjuster_fields:
  "adj_model (first_adjuster x t m c config) = m"
  "adj_iterations (first_adjuster x t m c config) = init_iterations x"
  "adj_control (first_adjuster x t m c config) = control config"
  "adj_type (first_adjuster x t m c config) = t"
  "adj_cost (first_adjuster x t m c config) = c"
  "adj_lambda (first_adjuster x t m c config) = (if use_user_lambda config then lambda config else init_lambda x)"
  by (simp_all add: first_adjuster_def new_adjuster_def set_lambda_def set_control_def Let_def)

lemma second_adjusters_fields:
  "adj_model (snd (second_adjusters x t c config adj1 m)) = m"
  "adj_iterations (snd (second_adjusters x t c config adj1 m)) = init_iterations x"
  "adj_control (snd (second_adjusters x t c config adj1 m)) = init_control x"
  "adj_type (snd (second_adjusters x t c config adj1 m)) = t"
  "adj_cost (snd (second_adjusters x t c config adj1 m)) = c"
  "adj_lambda (snd (second_adjusters x t c config adj1 m)) = (if use_user_lambda config then lambda config else init_lambda x)"
  by (simp_all add: second_adjusters_def new_adjuster_def set_lambda_def set_control_def Let_def)

lemma remove_outliers_call_trace:
  "remove_outliers_call x f out d c w = (r, w') \<Longrightarrow>
   trace w' = trace w \<or> trace w' = trace w @ [EvSystem (editor_command f out d c)]"
  by (auto simp: remove_outliers_call_def Let_def split: if_splits prod.splits)

lemma reload_trace:
  "reload x config dir m w = (r, w') \<Longrightarrow>
   trace w' = trace w
   \<or> trace w' = trace w @ [EvSystem (editor_command (path_append (data_dir config) (cnet_file config))
                                 ProcessedCnetFile dir (outlier_sd_cutoff config))]"
  by (auto simp: reload_def Let_def split: prod.splits sum.splits dest: remove_outliers_call_trace)

lemma model_new_fields:
  "BundleAdjustmentModel_new cams net s1 s2 s3 = Inr m \<Longrightarrow>
   m_cameras m = cams \<and> m_network m = net
   \<and> a m = map (\<lambda>_. camera_vector_t) cams \<and> a_target m = map (\<lambda>_. camera_vector_t) cams
   \<and> b m = map position net \<and> b_target m = map position net
   \<and> m_camera_position_sigma m = s1 \<and> m_camera_pose_sigma m = s2 \<and> m_gcp_sigma m = s3"
  by (auto simp: BundleAdjustmentModel_new_def Let_def split: sum.splits)

lemma reload_model:
  "reload x config dir m w = (Inr m2, w') \<Longrightarrow>
   \<exists>cnet. load_control_network (disk w') (path_append dir ProcessedCnetFile) = Inr cnet
     \<and> new_model_no_outliers config m cnet = Inr m2"
  by (auto simp: reload_def Let_def split: prod.splits sum.splits)

lemma example_built:
  "BundleAdjustmentModel_new example_cameras example_network 1 (1 / 2) (1 / 4) = Inr example_model"
  by (simp add: BundleAdjustmentModel_new_def example_cameras_def example_network_def
      example_model_def camera_vector_t_def Let_def eval_nat_numeral)

text \<open>
  C8. Let the maximum iteration count be 0, let a new adjuster start with a
  count that is not negative, and let the model be as its constructor built it.
  Then \<^verbatim>\<open>adjust_bundles\<close> returns with any fuel but none, the trace holds no
  solver step that it did not hold before, and a model that is returned has the
  values its construction gave it: every camera vector is zero and equals its
  target, every point vector is the position of its point in the model's
  network and equals its target. Without outlier removal the model returned is
  the model given.
\<close>

theorem max_iterations_zero:
  assumes mi: "max_iterations config = 0"
    and i0: "0 \<le> init_iterations x"
    and built: "BundleAdjustmentModel_new cams net s1 s2 s3 = Inr ba_model"
  shows "\<exists>r w'.
      adjust_bundles x t (Suc n) ba_model cost_func config ba_type_str w = Some (r, w')
    \<and> count_list (trace w') EvUpdate = count_list (trace w) EvUpdate
    \<and> (\<not> remove_outliers config \<longrightarrow> r = Inr ba_model)
    \<and> (\<forall>m. r = Inr m \<longrightarrow>
          a m = map (\<lambda>_. replicate 6 0) (m_cameras m) \<and> a_target m = a m
        \<and> b m = map position (m_network m) \<and> b_target m = b m)"
proof -
  let ?dir = "results_dir_of config"
  let ?adj = "first_adjuster x t ba_model cost_func config"
  let ?w0 = "if save_iteration_data config
                then w \<lparr> disk := clear_report_files CameraParamsReportFile PointsReportFile ?dir (disk w) \<rparr>
                else w"
  let ?rep = "\<lparr> rep_name = ba_type_str, rep_level = report_level config \<rparr>"
  let ?w1 = "end_tie_in x ?rep ?adj ?w0"
  have fp: "first_pass x t (Suc n) ba_model cost_func config ba_type_str w = Some (?adj, ?w1)"
    using i0 mi by (simp add: first_pass_def Let_def run_zero_budget first_adjuster_fields)
  have t1: "count_list (trace ?w1) EvUpdate = count_list (trace w) EvUpdate"
    by (simp add: end_tie_in_def)
  from model_new_fields [OF built]
  have prior: "a ba_model = map (\<lambda>_. replicate 6 0) (m_cameras ba_model) \<and> a_target ba_model = a ba_model
        \<and> b ba_model = map position (m_network ba_model) \<and> b_target ba_model = b ba_model"
    by (simp add: camera_vector_t_def)
  show ?thesis
  proof (cases "remove_outliers config")
    case False
    with fp t1 prior show ?thesis
      by (simp add: adjust_bundles_def Let_def first_adjuster_fields)
  next
    case True
    obtain r2 w2 where rl: "reload x config ?dir (adj_model ?adj) ?w1 = (r2, w2)"
      by (cases "reload x config ?dir (adj_model ?adj) ?w1") auto
    from reload_trace [OF rl] t1
    have t2: "count_list (trace w2) EvUpdate = count_list (trace w) EvUpdate"
      by auto
    show ?thesis
    proof (cases r2)
      case (Inl e)
      with fp rl True t2 show ?thesis
        by (simp add: adjust_bundles_def Let_def)
    next
      case (Inr m2)
      let ?adj2 = "snd (second_adjusters x t cost_func config ?adj m2)"
      let ?rep2 = "\<lparr> rep_name = ba_type_str @ '' No Outliers'', rep_level = report_level config \<rparr>"
      let ?w3 = "end_tie_in x ?rep2 ?adj2 w2"
      from reload_model [OF rl [unfolded Inr]] obtain cnet where
        "new_model_no_outliers config (adj_model ?adj) cnet = Inr m2"
        by blast
      from model_new_fields [OF this [unfolded new_model_no_outliers_def]]
      have prior2: "a m2 = map (\<lambda>_. replicate 6 0) (m_cameras m2) \<and> a_target m2 = a m2
        \<and> b m2 = map position (m_network m2) \<and> b_target m2 = b m2"
        by (simp add: camera_vector_t_def)
      have run2: "run_bundle_adjustment x (Suc n) ?adj2 ?rep2 ?dir (max_iterations config)
          (save_iteration_data config) w2 = Some (?adj2, ?w3)"
        using i0 mi by (simp add: run_zero_budget second_adjusters_fields)
      have "adjust_bundles x t (Suc n) ba_model cost_func config ba_type_str w = Some (Inr m2, ?w3)"
        using fp rl True Inr run2
        by (simp add: adjust_bundles_def Let_def split_beta second_adjusters_fields)
      moreover have "count_list (trace ?w3) EvUpdate = count_list (trace w) EvUpdate"
        using t2 by (simp add: end_tie_in_def)
      ultimately show ?thesis
        using prior2 True by simp
    qed
  qed
qed

theorem max_iterations_zero_witness:
  "max_iterations (example_config \<lparr> max_iterations := 0 \<rparr>) = 0
   \<and> 0 \<le> init_iterations example_externals
   \<and> BundleAdjustmentModel_new example_cameras example_network 1 (1 / 2) (1 / 4) = Inr example_model
   \<and> (\<exists>r w'. adjust_bundles example_externals AdjustRef (Suc 0) example_model L2Error
                 (example_config \<lparr> max_iterations := 0 \<rparr>) ''Reference'' example_world = Some (r, w')
          \<and> count_list (trace w') EvUpdate = count_list (trace example_world) EvUpdate)
   \<and> map_option b (final_model (adjust_bundles example_externals AdjustRef (Suc 0) example_model L2Error
                 (example_config \<lparr> max_iterations := 0 \<rparr>) ''Reference'' example_world)) = Some [[1, 2, 3]]
   \<and> map_option a (final_model (adjust_bundles example_externals AdjustRef (Suc 0) example_model L2Error
                 (example_config \<lparr> max_iterations := 0 \<rparr>) ''Reference'' example_world))
       = Some [[0, 0, 0, 0, 0, 0], [0, 0, 0, 0, 0, 0]]"
proof -
  have h1: "max_iterations (example_config \<lparr> max_iterations := 0 \<rparr>) = 0"
    by simp
  have h2: "0 \<le> init_iterations example_externals"
    by (simp add: example_externals_def)
  from max_iterations_zero [OF h1 h2 example_built, of AdjustRef 0 L2Error "''Reference''" example_world]
  obtain r w' where "adjust_bundles example_externals AdjustRef (Suc 0) example_model L2Error
                 (example_config \<lparr> max_iterations := 0 \<rparr>) ''Reference'' example_world = Some (r, w')"
    "count_list (trace w') EvUpdate = count_list (trace example_world) EvUpdate"
    by blast
  moreover have "map_option b (final_model (adjust_bundles example_externals AdjustRef (Suc 0) example_model L2Error
                 (example_config \<lparr> max_iterations := 0 \<rparr>) ''Reference'' example_world)) = Some [[1, 2, 3]]"
    "map_option a (final_model (adjust_bundles example_externals AdjustRef (Suc 0) example_model L2Error
                 (example_config \<lparr> max_iterations := 0 \<rparr>) ''Reference'' example_world))
       = Some [[0, 0, 0, 0, 0, 0], [0, 0, 0, 0, 0, 0]]"
    by (simp_all add: final_model_def ex_defs run_defs ba_loop.simps Let_def eval_nat_numeral)
  ultimately show ?thesis
    using h1 h2 example_built by blast
qed

lemma fold_set_A: "\<exists>a1. fold (\<lambda>(j, v). set_A_parameters j v) xs m = m \<lparr> a := a1 \<rparr>"
proof (induction xs arbitrary: m)
  case Nil
  have "m = m \<lparr> a := a m \<rparr>" by simp
  then show ?case by (metis fold_simps(1))
next
  case (Cons p xs)
  obtain j v where p: "p = (j, v)" by (cases p)
  from Cons [of "set_A_parameters j v m"] p show ?case
    by (auto simp: set_A_parameters_def)
qed

lemma fold_set_B: "\<exists>b1. fold (\<lambda>(i, v). set_B_parameters i v) xs m = m \<lparr> b := b1 \<rparr>"
proof (induction xs arbitrary: m)
  case Nil
  have "m = m \<lparr> b := b m \<rparr>" by simp
  then show ?case by (metis fold_simps(1))
next
  case (Cons p xs)
  obtain i v where p: "p = (i, v)" by (cases p)
  from Cons [of "set_B_parameters i v m"] p show ?case
    by (auto simp: set_B_parameters_def)
qed

lemma update_frame:
  assumes "update x adj ta tr = (d1, ta1, tr1, adj1)"
  shows "\<exists>a1 b1. adj_model adj1 = (adj_model adj) \<lparr> a := a1, b := b1 \<rparr>"
proof -
  obtain a1 where a1: "fold (\<lambda>(j, v). set_A_parameters j v) (step_A (solver x adj ta tr)) (adj_model adj)
      = (adj_model adj) \<lparr> a := a1 \<rparr>"
    using fold_set_A by blast
  obtain b1 where b1: "fold (\<lambda>(i, v). set_B_parameters i v) (step_B (solver x adj ta tr))
      ((adj_model adj) \<lparr> a := a1 \<rparr>) = (adj_model adj) \<lparr> a := a1, b := b1 \<rparr>"
    using fold_set_B by blast
  from assms a1 b1 have "adj_model adj1 = (adj_model adj) \<lparr> a := a1, b := b1 \<rparr>"
    by (auto simp: update_def Let_def)
  then show ?thesis by blast
qed

lemma ba_loop_frame:
  "ba_loop x dir mi save fuel d ta tr adj w = Some (adj', w') \<Longrightarrow>
   \<exists>a1 b1. adj_model adj' = (adj_model adj) \<lparr> a := a1, b := b1 \<rparr>"
proof (induction fuel arbitrary: d ta tr adj w)
  case 0
  then show ?case by simp
next
  case (Suc n)
  show ?case
  proof (cases "stop_now mi (d, ta, tr, adj)")
    case True
    with Suc.prems have "adj' = adj" by (simp add: ba_loop_stop)
    moreover have "adj_model adj = (adj_model adj) \<lparr> a := a (adj_model adj), b := b (adj_model adj) \<rparr>"
      by simp
    ultimately show ?thesis by metis
  next
    case False
    obtain d1 ta1 tr1 adj1 where u: "update x adj ta tr = (d1, ta1, tr1, adj1)"
      by (cases "update x adj ta tr") auto
    from Suc.prems ba_loop_step [OF False u]
    obtain w2 where "ba_loop x dir mi save n d1 ta1 tr1 adj1 w2 = Some (adj', w')"
      by (cases save) auto
    from Suc.IH [OF this] obtain a2 b2 where "adj_model adj' = (adj_model adj1) \<lparr> a := a2, b := b2 \<rparr>"
      by blast
    moreover from update_frame [OF u] obtain a1 b1 where
      "adj_model adj1 = (adj_model adj) \<lparr> a := a1, b := b1 \<rparr>"
      by blast
    ultimately have "adj_model adj' = (adj_model adj) \<lparr> a := a2, b := b2 \<rparr>"
      by simp
    then show ?thesis by blast
  qed
qed

lemma first_pass_frame:
  assumes "first_pass x t fuel ba_model cost_func config ba_type_str w = Some (adj1, w1)"
  shows "\<exists>a1 b1. adj_model adj1 = ba_model \<lparr> a := a1, b := b1 \<rparr>"
proof -
  from assms obtain w' where
    "ba_loop x (results_dir_of config) (max_iterations config) (save_iteration_data config) fuel
       2 (10 ^ 10) (10 ^ 10) (first_adjuster x t ba_model cost_func config)
       (if save_iteration_data config
        then w \<lparr> disk := clear_report_files CameraParamsReportFile PointsReportFile
                 (results_dir_of config) (disk w) \<rparr>
        else w) = Some (adj1, w')"
    by (auto simp: first_pass_def run_bundle_adjustment_def Let_def split: option.splits)
  from ba_loop_frame [OF this] show ?thesis
    by (simp add: first_adjuster_fields)
qed

lemma new_model_cameras_only:
  "m_cameras m = m_cameras m' \<Longrightarrow>
   new_model_no_outliers config m cnet = new_model_no_outliers config m' cnet"
  by (simp add: new_model_no_outliers_def cameras_def)

lemma reload_cameras_only:
  "m_cameras m = m_cameras m' \<Longrightarrow> reload x config dir m w = reload x config dir m' w"
  by (auto simp: reload_def Let_def new_model_cameras_only [of m m'] split: prod.splits sum.splits)

text \<open>
  C4. Let the first model be built from the sigmas of the configuration (as
  \<^verbatim>\<open>main\<close> builds it), let the first pass return, and let the reloading step
  return a model. Then that model is bound to the network loaded from the
  processed file, has the camera list and the three sigmas of the first model,
  has as point parameters and point targets the positions stored in that
  network, and has zero camera parameters and targets. The step gives the same
  result on the first model as it was before the first pass: nothing of the
  values the first pass reached enters the new model.
\<close>

theorem reloading_builds_fresh_model:
  assumes built: "BundleAdjustmentModel_new cams net (camera_position_sigma config)
        (camera_pose_sigma config) (gcp_sigma config) = Inr ba_model"
    and fp: "first_pass x t fuel ba_model cost_func config ba_type_str w = Some (adj1, w1)"
    and rl: "reload x config dir (adj_model adj1) w1 = (Inr m2, w2)"
  shows "\<exists>cnet. load_control_network (disk w2) (path_append dir ProcessedCnetFile) = Inr cnet
      \<and> m_network m2 = cnet
      \<and> m_cameras m2 = cams \<and> m_cameras m2 = m_cameras ba_model
      \<and> m_camera_position_sigma m2 = m_camera_position_sigma ba_model
      \<and> m_camera_pose_sigma m2 = m_camera_pose_sigma ba_model
      \<and> m_gcp_sigma m2 = m_gcp_sigma ba_model
      \<and> b m2 = map position cnet \<and> b_target m2 = map position cnet
      \<and> a m2 = map (\<lambda>_. replicate 6 0) cams \<and> a_target m2 = map (\<lambda>_. replicate 6 0) cams
      \<and> reload x config dir ba_model w1 = (Inr m2, w2)"
proof -
  from first_pass_frame [OF fp] obtain a1 b1 where fr: "adj_model adj1 = ba_model \<lparr> a := a1, b := b1 \<rparr>"
    by blast
  from reload_model [OF rl] obtain cnet where
    ld: "load_control_network (disk w2) (path_append dir ProcessedCnetFile) = Inr cnet"
    and nm: "new_model_no_outliers config (adj_model adj1) cnet = Inr m2"
    by blast
  note m1 = model_new_fields [OF built]
  from nm fr m1 have "BundleAdjustmentModel_new cams cnet (camera_position_sigma config)
        (camera_pose_sigma config) (gcp_sigma config) = Inr m2"
    by (simp add: new_model_no_outliers_def cameras_def)
  note m2 = model_new_fields [OF this]
  have "reload x config dir ba_model w1 = (Inr m2, w2)"
    using rl fr reload_cameras_only [of "adj_model adj1" ba_model] by simp
  with ld m1 m2 show ?thesis
    by (simp add: camera_vector_t_def)
qed

theorem reloading_builds_fresh_model_witness:
  "BundleAdjustmentModel_new example_cameras example_network (camera_position_sigma example_config)
        (camera_pose_sigma example_config) (gcp_sigma example_config) = Inr example_model
   \<and> (\<exists>adj1 w1 m2 w2.
        first_pass example_externals AdjustRef 3 example_model L2Error example_config
          ''Reference'' example_world = Some (adj1, w1)
      \<and> b (adj_model adj1) = [[9, 9, 9], [4, 5, 6]]
      \<and> reload example_externals example_config ''out'' (adj_model adj1) w1 = (Inr m2, w2)
      \<and> m_network m2 = take 1 example_network
      \<and> m_cameras m2 = example_cameras
      \<and> m_gcp_sigma m2 = 1 / 4
      \<and> b m2 = [[1, 2, 3]]
      \<and> a m2 = [[0, 0, 0, 0, 0, 0], [0, 0, 0, 0, 0, 0]])"
proof -
  have built: "BundleAdjustmentModel_new example_cameras example_network (camera_position_sigma example_config)
        (camera_pose_sigma example_config) (gcp_sigma example_config) = Inr example_model"
    using example_built by (simp add: example_config_def)
  have "case first_pass example_externals AdjustRef 3 example_model L2Error example_config
          ''Reference'' example_world of
          None \<Rightarrow> False
        | Some (adj1, w1) \<Rightarrow>
            b (adj_model adj1) = [[9, 9, 9], [4, 5, 6]]
            \<and> \<not> isl (fst (reload example_externals example_config ''out'' (adj_model adj1) w1))
            \<and> load_control_network (disk (snd (reload example_externals example_config ''out'' (adj_model adj1) w1)))
                 (path_append ''out'' ProcessedCnetFile) = Inr (take 1 example_network)"
    by (simp add: ex_defs run_defs ba_loop.simps numeral_eq_Suc Let_def)
  then obtain adj1 w1 m2 w2 where
    fp: "first_pass example_externals AdjustRef 3 example_model L2Error example_config
          ''Reference'' example_world = Some (adj1, w1)"
    and conv: "b (adj_model adj1) = [[9, 9, 9], [4, 5, 6]]"
    and rl: "reload example_externals example_config ''out'' (adj_model adj1) w1 = (Inr m2, w2)"
    and ld: "load_control_network (disk w2) (path_append ''out'' ProcessedCnetFile) = Inr (take 1 example_network)"
    by (auto split: option.splits simp: isl_def) (metis old.sum.exhaust prod.collapse)
  from reloading_builds_fresh_model [OF built fp rl] ld
  have "m_network m2 = take 1 example_network" "m_cameras m2 = example_cameras"
    "m_gcp_sigma m2 = 1 / 4" "b m2 = [[1, 2, 3]]" "a m2 = [[0, 0, 0, 0, 0, 0], [0, 0, 0, 0, 0, 0]]"
    by (auto simp: example_model_def example_network_def example_cameras_def eval_nat_numeral)
  with built fp conv rl show ?thesis
    by blast
qed

text \<open>
  C3 (the code departs from it). With control 1 in the configuration and a
  solver whose control is 0 when it is built, the adjuster of the first pass
  runs with control 1 and the adjuster of the second pass with control 0: in
  the second pass \<^verbatim>\<open>set_control\<close> is called on the adjuster of the first pass
  again, not on the new one.
\<close>

theorem second_pass_control_not_set:
  "control example_config = 1
   \<and> adj_control (first_adjuster example_externals AdjustRef example_model L2Error example_config) = 1
   \<and> adj_control (snd (second_adjusters example_externals AdjustRef L2Error example_config
        (first_adjuster example_externals AdjustRef example_model L2Error example_config)
        example_model)) = 0
   \<and> adj_control (fst (second_adjusters example_externals AdjustRef L2Error example_config
        (first_adjuster example_externals AdjustRef example_model L2Error example_config)
        example_model)) = 1"
  by (simp add: first_adjuster_fields second_adjusters_fields)
     (simp add: example_config_def example_externals_def second_adjusters_def set_control_def Let_def)

text \<open>
  C1 (as stated, it fails). The editor ends with a non-zero exit status (256
  from \<^verbatim>\<open>system\<close>) and writes nothing; a processed network of an earlier run
  lies in the results directory. \<^verbatim>\<open>adjust_bundles\<close> returns a model, and its
  trace shows the second pass after the call of the editor.
\<close>

theorem outlier_exit_status_counterexample:
  "system example_externals
     (editor_command ''data/control.cnet'' ''processed.cnet'' ''out'' 3) example_disk
     = (256, example_disk)
   \<and> returned_model (adjust_bundles example_externals AdjustRef 3 example_model L2Error
        example_config ''Reference'' example_world)
   \<and> events (adjust_bundles example_externals AdjustRef 3 example_model L2Error
        example_config ''Reference'' example_world) =
      [EvUpdate, EvUpdate, EvEndTieIn ''Reference'',
       EvSystem (editor_command ''data/control.cnet'' ''processed.cnet'' ''out'' 3),
       EvUpdate, EvUpdate, EvEndTieIn ''Reference No Outliers'']"
  by (simp add: returned_model_def events_def ex_defs run_defs ba_loop.simps numeral_eq_Suc Let_def)

lemma remove_outliers_call_fails:
  assumes "\<not> is_regular_file (disk w) MeanErrorsFile \<or> \<not> is_regular_file (disk w) f
     \<or> fst (system x (editor_command f out d c) (disk w)) = - 1"
  shows "\<exists>msg w'. remove_outliers_call x f out d c w = (Inl msg, w')
     \<and> (\<exists>s. msg = IOErr s \<or> msg = LogicErr s)
     \<and> (trace w' = trace w \<or> trace w' = trace w @ [EvSystem (editor_command f out d c)])"
  using assms by (auto simp: remove_outliers_call_def Let_def split: prod.splits)

text \<open>
  C1 (amended). Let the first pass return and outlier removal be enabled. If
  then the error report file is missing, or the input control network file is
  missing, or \<^verbatim>\<open>system\<close> returns -1, \<^verbatim>\<open>adjust_bundles\<close> returns an error to its
  caller (an input error for a missing file, a logic error for the failed
  call), and after the first pass the trace gains no solver step and no call
  of \<^verbatim>\<open>end_tie_in\<close>: the second pass is not entered.
\<close>

theorem outlier_detection_failure_fatal:
  assumes fp: "first_pass x t fuel ba_model cost_func config ba_type_str w = Some (adj1, w1)"
    and ro: "remove_outliers config"
    and fail: "\<not> is_regular_file (disk w1) MeanErrorsFile
      \<or> \<not> is_regular_file (disk w1) (path_append (data_dir config) (cnet_file config))
      \<or> fst (system x (editor_command (path_append (data_dir config) (cnet_file config))
                 ProcessedCnetFile (results_dir_of config) (outlier_sd_cutoff config)) (disk w1)) = - 1"
  shows "\<exists>e w2. adjust_bundles x t fuel ba_model cost_func config ba_type_str w = Some (Inl e, w2)
      \<and> (\<exists>s. e = IOErr s \<or> e = LogicErr s)
      \<and> filter is_tie_in (trace w2) = filter is_tie_in (trace w1)
      \<and> count_list (trace w2) EvUpdate = count_list (trace w1) EvUpdate"
proof -
  from remove_outliers_call_fails [OF fail] obtain e w2 where
    r: "remove_outliers_call x (path_append (data_dir config) (cnet_file config))
          ProcessedCnetFile (results_dir_of config) (outlier_sd_cutoff config) w1 = (Inl e, w2)"
    and e: "\<exists>s. e = IOErr s \<or> e = LogicErr s"
    and t: "trace w2 = trace w1 \<or> trace w2 = trace w1 @ [EvSystem (editor_command
          (path_append (data_dir config) (cnet_file config))
          ProcessedCnetFile (results_dir_of config) (outlier_sd_cutoff config))]"
    by blast
  from r have "reload x config (results_dir_of config) (adj_model adj1) w1 = (Inl e, w2)"
    by (simp add: reload_def Let_def)
  with fp ro have "adjust_bundles x t fuel ba_model cost_func config ba_type_str w = Some (Inl e, w2)"
    by (simp add: adjust_bundles_def Let_def)
  moreover from t have "filter is_tie_in (trace w2) = filter is_tie_in (trace w1)"
    "count_list (trace w2) EvUpdate = count_list (trace w1) EvUpdate"
    by auto
  ultimately show ?thesis
    using e by blast
qed

theorem outlier_detection_failure_fatal_witness:
  "remove_outliers (example_config \<lparr> report_level := 0 \<rparr>)
   \<and> (\<exists>adj1 w1.
        first_pass example_externals AdjustRef 3 example_model L2Error
          (example_config \<lparr> report_level := 0 \<rparr>) ''Reference'' example_world = Some (adj1, w1)
      \<and> \<not> is_regular_file (disk w1) MeanErrorsFile
      \<and> (\<exists>e w2. adjust_bundles example_externals AdjustRef 3 example_model L2Error
             (example_config \<lparr> report_level := 0 \<rparr>) ''Reference'' example_world = Some (Inl e, w2)
           \<and> filter is_tie_in (trace w2) = filter is_tie_in (trace w1)))
   \<and> events (adjust_bundles example_externals AdjustRef 3 example_model L2Error
             (example_config \<lparr> report_level := 0 \<rparr>) ''Reference'' example_world)
       = [EvUpdate, EvUpdate, EvEndTieIn ''Reference'']"
proof -
  have ro: "remove_outliers (example_config \<lparr> report_level := 0 \<rparr>)"
    by (simp add: example_config_def)
  have "case first_pass example_externals AdjustRef 3 example_model L2Error
          (example_config \<lparr> report_level := 0 \<rparr>) ''Reference'' example_world of
          None \<Rightarrow> False
        | Some (adj1, w1) \<Rightarrow> \<not> is_regular_file (disk w1) MeanErrorsFile"
    by (simp add: ex_defs run_defs ba_loop.simps numeral_eq_Suc Let_def)
  then obtain adj1 w1 where
    fp: "first_pass example_externals AdjustRef 3 example_model L2Error
          (example_config \<lparr> report_level := 0 \<rparr>) ''Reference'' example_world = Some (adj1, w1)"
    and missing: "\<not> is_regular_file (disk w1) MeanErrorsFile"
    by (auto split: option.splits)
  from outlier_detection_failure_fatal [OF fp ro] missing
  obtain e w2 where "adjust_bundles example_externals AdjustRef 3 example_model L2Error
             (example_config \<lparr> report_level := 0 \<rparr>) ''Reference'' example_world = Some (Inl e, w2)"
    "filter is_tie_in (trace w2) = filter is_tie_in (trace w1)"
    by blast
  moreover have "events (adjust_bundles example_externals AdjustRef 3 example_model L2Error
             (example_config \<lparr> report_level := 0 \<rparr>) ''Reference'' example_world)
       = [EvUpdate, EvUpdate, EvEndTieIn ''Reference'']"
    by (simp add: events_def ex_defs run_defs ba_loop.simps numeral_eq_Suc Let_def)
  ultimately show ?thesis
    using ro fp missing by blast
qed

end
